theory Spec2Isabelle
  imports Complex_Main "HOL-Library.Multiset"
begin

section \<open>Tab workspace: drag and drop of tabs between groups\<close>

text \<open>
  A shallow embedding of \<^verbatim>\<open>TabContainer.jsx\<close> (the component \<^verbatim>\<open>TabContainer\<close> with its
  \<^verbatim>\<open>useDebounce\<close> hook) and of the layout loading and saving code of \<^verbatim>\<open>ShopGenerator\<close>.
  Pixel coordinates are JavaScript numbers; they are modelled as real numbers, so the
  comparisons and subtractions below are the exact ones. An event handler is a function
  from the props and the state of the component at the last render, and from what it reads
  of the event, to the new state and the list of calls it makes to the callbacks of its
  parent; an exception that leaves the handler is an error value. Calls that change
  neither (\<^verbatim>\<open>e.preventDefault()\<close>, logging) are left out.
\<close>

subsection \<open>Geometry and indicators\<close>

text \<open>The fields of a \<^verbatim>\<open>DOMRect\<close> that the handlers read, as \<^verbatim>\<open>getBoundingClientRect\<close> returns them.\<close>

record dom_rect =
  rect_left :: real
  rect_right :: real
  rect_top :: real
  rect_bottom :: real
  rect_width :: real

text \<open>An entry of \<^verbatim>\<open>originalPositions.current\<close>.\<close>

record position =
  pos_left :: real
  pos_right :: real
  pos_width :: real
  pos_center :: real

text \<open>The drop indicators; \<open>None\<close> is \<^verbatim>\<open>null\<close>.\<close>

record indicators =
  leftGroup :: "nat option"
  rightGroup :: "nat option"
  betweenGroups :: "nat option"

definition noIndicators :: indicators where
  "noIndicators = \<lparr>leftGroup = None, rightGroup = None, betweenGroups = None\<rparr>"

definition edgeThreshold :: real where
  "edgeThreshold = 40"

subsection \<open>JavaScript values\<close>

text \<open>
  The values that \<^verbatim>\<open>JSON.parse\<close> returns and \<^verbatim>\<open>JSON.stringify\<close> takes. An object is the
  list of its own properties in insertion order. \<open>None\<close> stands for \<^verbatim>\<open>undefined\<close> where a
  property is read.
\<close>

datatype json =
    JNull
  | JBool bool
  | JNum real
  | JStr string
  | JArr "json list"
  | JObj "(string \<times> json) list"

datatype js_error = SyntaxError | TypeError

text \<open>Truthiness, as \<^verbatim>\<open>!x\<close> and \<^verbatim>\<open>x && y\<close> test it.\<close>

fun truthy :: "json \<Rightarrow> bool" where
  "truthy JNull = False"
| "truthy (JBool b) = b"
| "truthy (JNum r) = (r \<noteq> 0)"
| "truthy (JStr s) = (s \<noteq> [])"
| "truthy (JArr xs) = True"
| "truthy (JObj kvs) = True"

text \<open>Reading the property \<open>k\<close> (one of \<^verbatim>\<open>groups\<close>, \<^verbatim>\<open>widths\<close>, \<^verbatim>\<open>type\<close>, \<^verbatim>\<open>key\<close>) of a value.\<close>

fun getProp :: "json \<Rightarrow> string \<Rightarrow> json option" where
  "getProp (JObj kvs) k = map_of kvs k"
| "getProp v k = None"

fun isArray :: "json option \<Rightarrow> bool" where
  "isArray (Some (JArr xs)) = True"
| "isArray v = False"

fun isString :: "json option \<Rightarrow> bool" where
  "isString (Some (JStr s)) = True"
| "isString v = False"

text \<open>\<^verbatim>\<open>typeof v === 'object'\<close>, which holds of \<^verbatim>\<open>null\<close> and of arrays too.\<close>

fun typeofObject :: "json \<Rightarrow> bool" where
  "typeofObject JNull = True"
| "typeofObject (JArr xs) = True"
| "typeofObject (JObj kvs) = True"
| "typeofObject v = False"

fun elements :: "json option \<Rightarrow> json list" where
  "elements (Some (JArr xs)) = xs"
| "elements v = []"

text \<open>
  The functions of the JavaScript runtime that the code calls. They are not code of this
  repository, so the handlers take them as a parameter. \<open>parseInt\<close> returns \<open>None\<close> for
  \<^verbatim>\<open>NaN\<close>; \<open>JSON_parse\<close> returns \<open>None\<close> where \<^verbatim>\<open>JSON.parse\<close> throws a \<^verbatim>\<open>SyntaxError\<close>;
  \<open>Number_toString\<close> is the conversion of a number to a string (\<^verbatim>\<open>toString()\<close> and
  template literals).
\<close>

record js_builtins =
  parseInt :: "string \<Rightarrow> int option"
  JSON_parse :: "string \<Rightarrow> json option"
  JSON_stringify :: "json \<Rightarrow> string"
  Number_toString :: "real \<Rightarrow> string"

subsection \<open>An instance of the runtime functions\<close>

text \<open>
  An instance of \<open>js_builtins\<close> to run the handlers on concrete inputs: \<^verbatim>\<open>parseInt\<close> without
  radix, \<^verbatim>\<open>JSON.stringify\<close> and \<^verbatim>\<open>JSON.parse\<close> on ASCII text, and the conversion of integers
  to decimal digits (of another number, its integer part). Strings are lists of bytes, so
  an escape \<^verbatim>\<open>\uXXXX\<close> above \<^verbatim>\<open>007F\<close> is outside what \<open>parse_ascii\<close> reads. \<open>parse_ascii\<close>
  runs on fuel, one more than the length of the text. The theorems about the handlers
  hold for every instance; this one evaluates them.
\<close>

definition isDigit :: "char \<Rightarrow> bool" where
  "isDigit c = (of_char c \<ge> (48::nat) \<and> of_char c \<le> (57::nat))"

definition digitValue :: "char \<Rightarrow> nat" where
  "digitValue c = of_char c - 48"

definition hexValue :: "char \<Rightarrow> nat option" where
  "hexValue c =
     (let n = (of_char c :: nat)
      in if 48 \<le> n \<and> n \<le> 57 then Some (n - 48)
         else if 97 \<le> n \<and> n \<le> 102 then Some (n - 87)
         else if 65 \<le> n \<and> n \<le> 70 then Some (n - 55)
         else None)"

definition digitsValue :: "string \<Rightarrow> nat" where
  "digitsValue ds = foldl (\<lambda>a c. 10 * a + digitValue c) 0 ds"

definition isStrWhiteSpace :: "char \<Rightarrow> bool" where
  "isStrWhiteSpace c = (of_char c \<in> {9, 10, 11, 12, 13, 32 :: nat})"

definition parseInt_ascii :: "string \<Rightarrow> int option" where
  "parseInt_ascii s =
     (let s1 = dropWhile isStrWhiteSpace s;
          negative = (s1 \<noteq> [] \<and> hd s1 = CHR ''-'');
          s2 = (if s1 \<noteq> [] \<and> (hd s1 = CHR ''-'' \<or> hd s1 = CHR ''+'') then tl s1 else s1);
          hex = (length s2 \<ge> 2 \<and> hd s2 = CHR ''0'' \<and> (s2 ! 1 = CHR ''x'' \<or> s2 ! 1 = CHR ''X''));
          s3 = (if hex then drop 2 s2 else s2);
          ds = (if hex then takeWhile (\<lambda>c. hexValue c \<noteq> None) s3 else takeWhile isDigit s3);
          n = (if hex then foldl (\<lambda>a c. 16 * a + the (hexValue c)) 0 ds else digitsValue ds)
      in if ds = [] then None else Some (if negative then - int n else int n))"

fun natDigits :: "nat \<Rightarrow> nat \<Rightarrow> string \<Rightarrow> string" where
  "natDigits 0 n acc = acc"
| "natDigits (Suc fuel) n acc =
     (let acc' = char_of (48 + n mod 10) # acc
      in if n < 10 then acc' else natDigits fuel (n div 10) acc')"

definition showNat :: "nat \<Rightarrow> string" where
  "showNat n = natDigits (Suc n) n []"

definition showInt :: "int \<Rightarrow> string" where
  "showInt k = (if k < 0 then CHR ''-'' # showNat (nat (- k)) else showNat (nat k))"

definition Number_toString_int :: "real \<Rightarrow> string" where
  "Number_toString_int r = showInt \<lfloor>r\<rfloor>"

definition hexDigit :: "nat \<Rightarrow> char" where
  "hexDigit n = (if n < 10 then char_of (48 + n) else char_of (87 + n))"

definition quoteChar :: "char \<Rightarrow> string" where
  "quoteChar c =
     (let n = (of_char c :: nat)
      in if n = 34 then [CHR 0x5C, CHR 0x22]
         else if n = 92 then [CHR 0x5C, CHR 0x5C]
         else if n = 8 then [CHR 0x5C, CHR ''b'']
         else if n = 9 then [CHR 0x5C, CHR ''t'']
         else if n = 10 then [CHR 0x5C, CHR ''n'']
         else if n = 12 then [CHR 0x5C, CHR ''f'']
         else if n = 13 then [CHR 0x5C, CHR ''r'']
         else if n < 32
         then [CHR 0x5C, CHR ''u'', CHR ''0'', CHR ''0'', hexDigit (n div 16), hexDigit (n mod 16)]
         else [c])"

definition quoteString :: "string \<Rightarrow> string" where
  "quoteString s = CHR 0x22 # concat (map quoteChar s) @ [CHR 0x22]"

fun joinComma :: "string list \<Rightarrow> string" where
  "joinComma [] = []"
| "joinComma [x] = x"
| "joinComma (x # y # ys) = x @ CHR '','' # joinComma (y # ys)"

fun stringify_ascii :: "json \<Rightarrow> string"
  and stringifyElements :: "json list \<Rightarrow> string list"
  and stringifyMembers :: "(string \<times> json) list \<Rightarrow> string list" where
  "stringify_ascii JNull = ''null''"
| "stringify_ascii (JBool b) = (if b then ''true'' else ''false'')"
| "stringify_ascii (JNum r) = Number_toString_int r"
| "stringify_ascii (JStr s) = quoteString s"
| "stringify_ascii (JArr xs) = CHR ''['' # joinComma (stringifyElements xs) @ '']''"
| "stringify_ascii (JObj kvs) = CHR ''{'' # joinComma (stringifyMembers kvs) @ ''}''"
| "stringifyElements [] = []"
| "stringifyElements (x # xs) = stringify_ascii x # stringifyElements xs"
| "stringifyMembers [] = []"
| "stringifyMembers ((k, v) # kvs) =
     (quoteString k @ CHR '':'' # stringify_ascii v) # stringifyMembers kvs"

definition isJsonWhiteSpace :: "char \<Rightarrow> bool" where
  "isJsonWhiteSpace c = (of_char c \<in> {9, 10, 13, 32 :: nat})"

definition skipWs :: "string \<Rightarrow> string" where
  "skipWs s = dropWhile isJsonWhiteSpace s"

text \<open>
  The rest of a string literal after its opening quote: the string, and the text after the
  closing quote.
\<close>

fun parseStringBody :: "string \<Rightarrow> string \<Rightarrow> (string \<times> string) option" where
  "parseStringBody acc [] = None"
| "parseStringBody acc (c # cs) =
     (let n = (of_char c :: nat)
      in if n = 34 then Some (acc, cs)
         else if n < 32 then None
         else if n = 92
         then (case cs of
                 [] \<Rightarrow> None
               | e # es \<Rightarrow>
                   if e = CHR 0x22 \<or> e = CHR 0x5C \<or> e = CHR ''/'' then parseStringBody (acc @ [e]) es
                   else if e = CHR ''b'' then parseStringBody (acc @ [CHR 0x08]) es
                   else if e = CHR ''f'' then parseStringBody (acc @ [CHR 0x0C]) es
                   else if e = CHR ''n'' then parseStringBody (acc @ [CHR 0x0A]) es
                   else if e = CHR ''r'' then parseStringBody (acc @ [CHR 0x0D]) es
                   else if e = CHR ''t'' then parseStringBody (acc @ [CHR 0x09]) es
                   else if e = CHR ''u''
                   then (case map hexValue (take 4 es) of
                           [Some a, Some b, Some c', Some d] \<Rightarrow>
                             if a = 0 \<and> b = 0 \<and> c' < 8
                             then parseStringBody (acc @ [char_of (16 * c' + d)]) (drop 4 es)
                             else None
                         | other \<Rightarrow> None)
                   else None)
         else parseStringBody (acc @ [c]) cs)"

text \<open>A number: \<open>-? (0 | [1-9][0-9]*) (. [0-9]+)? ([eE] [+-]? [0-9]+)?\<close>\<close>

definition parseNumber :: "string \<Rightarrow> (real \<times> string) option" where
  "parseNumber s =
     (let negative = (s \<noteq> [] \<and> hd s = CHR ''-'');
          s1 = (if negative then tl s else s);
          ip = takeWhile isDigit s1;
          s2 = dropWhile isDigit s1;
          hasFrac = (s2 \<noteq> [] \<and> hd s2 = CHR ''.'');
          fp = (if hasFrac then takeWhile isDigit (tl s2) else []);
          s3 = (if hasFrac then dropWhile isDigit (tl s2) else s2);
          hasExp = (s3 \<noteq> [] \<and> (hd s3 = CHR ''e'' \<or> hd s3 = CHR ''E''));
          s4 = (if hasExp then tl s3 else s3);
          expNegative = (hasExp \<and> s4 \<noteq> [] \<and> hd s4 = CHR ''-'');
          s5 = (if hasExp \<and> s4 \<noteq> [] \<and> (hd s4 = CHR ''-'' \<or> hd s4 = CHR ''+'') then tl s4 else s4);
          ep = (if hasExp then takeWhile isDigit s5 else []);
          s6 = (if hasExp then dropWhile isDigit s5 else s3);
          mantissa = real (digitsValue (ip @ fp)) / 10 ^ length fp;
          scaled = (if expNegative then mantissa / 10 ^ digitsValue ep
                    else mantissa * 10 ^ digitsValue ep)
      in if ip = [] \<or> (length ip > 1 \<and> hd ip = CHR ''0'') \<or> (hasFrac \<and> fp = []) \<or>
            (hasExp \<and> ep = [])
         then None
         else Some (if negative then - scaled else scaled, s6))"

definition expectChar :: "char \<Rightarrow> string \<Rightarrow> string option" where
  "expectChar ch s = (case skipWs s of [] \<Rightarrow> None | c # cs \<Rightarrow> if c = ch then Some cs else None)"

definition stripPrefix :: "string \<Rightarrow> string \<Rightarrow> string option" where
  "stripPrefix p s = (if take (length p) s = p then Some (drop (length p) s) else None)"

text \<open>A later member with the name of an earlier one replaces its value.\<close>

fun setMember :: "string \<Rightarrow> json \<Rightarrow> (string \<times> json) list \<Rightarrow> (string \<times> json) list" where
  "setMember k v [] = [(k, v)]"
| "setMember k v ((k', v') # kvs) =
     (if k' = k then (k, v) # kvs else (k', v') # setMember k v kvs)"

fun parseValue :: "nat \<Rightarrow> string \<Rightarrow> (json \<times> string) option"
  and parseElements :: "nat \<Rightarrow> json list \<Rightarrow> string \<Rightarrow> (json \<times> string) option"
  and parseMembers :: "nat \<Rightarrow> (string \<times> json) list \<Rightarrow> string \<Rightarrow> (json \<times> string) option" where
  "parseValue 0 s = None"
| "parseValue (Suc fuel) s =
     (case skipWs s of
        [] \<Rightarrow> None
      | c # cs \<Rightarrow>
          if c = CHR ''{''
          then (case expectChar CHR ''}'' cs of
                  Some rest \<Rightarrow> Some (JObj [], rest)
                | None \<Rightarrow> parseMembers fuel [] cs)
          else if c = CHR ''[''
          then (case expectChar CHR '']'' cs of
                  Some rest \<Rightarrow> Some (JArr [], rest)
                | None \<Rightarrow> parseElements fuel [] cs)
          else if c = CHR 0x22
          then map_option (\<lambda>(str, rest). (JStr str, rest)) (parseStringBody [] cs)
          else if c = CHR ''n''
          then map_option (\<lambda>rest. (JNull, rest)) (stripPrefix ''null'' (c # cs))
          else if c = CHR ''t''
          then map_option (\<lambda>rest. (JBool True, rest)) (stripPrefix ''true'' (c # cs))
          else if c = CHR ''f''
          then map_option (\<lambda>rest. (JBool False, rest)) (stripPrefix ''false'' (c # cs))
          else map_option (\<lambda>(r, rest). (JNum r, rest)) (parseNumber (c # cs)))"
| "parseElements 0 acc s = None"
| "parseElements (Suc fuel) acc s =
     (case parseValue fuel s of
        None \<Rightarrow> None
      | Some (v, rest) \<Rightarrow>
          (case expectChar CHR '','' rest of
             Some rest' \<Rightarrow> parseElements fuel (acc @ [v]) rest'
           | None \<Rightarrow>
               map_option (\<lambda>rest'. (JArr (acc @ [v]), rest')) (expectChar CHR '']'' rest)))"
| "parseMembers 0 acc s = None"
| "parseMembers (Suc fuel) acc s =
     (case expectChar CHR 0x22 s of
        None \<Rightarrow> None
      | Some s1 \<Rightarrow>
          (case parseStringBody [] s1 of
             None \<Rightarrow> None
           | Some (k, s2) \<Rightarrow>
               (case expectChar CHR '':'' s2 of
                  None \<Rightarrow> None
                | Some s3 \<Rightarrow>
                    (case parseValue fuel s3 of
                       None \<Rightarrow> None
                     | Some (v, rest) \<Rightarrow>
                         (case expectChar CHR '','' rest of
                            Some rest' \<Rightarrow> parseMembers fuel (setMember k v acc) rest'
                          | None \<Rightarrow>
                              map_option (\<lambda>rest'. (JObj (setMember k v acc), rest'))
                                (expectChar CHR ''}'' rest))))))"

definition parse_ascii :: "string \<Rightarrow> json option" where
  "parse_ascii s =
     (case parseValue (Suc (length s)) s of
        None \<Rightarrow> None
      | Some (v, rest) \<Rightarrow> if skipWs rest = [] then Some v else None)"

definition ascii_builtins :: js_builtins where
  "ascii_builtins =
     \<lparr>parseInt = parseInt_ascii, JSON_parse = parse_ascii, JSON_stringify = stringify_ascii,
      Number_toString = Number_toString_int\<rparr>"

subsection \<open>Tabs and the state of a \<^verbatim>\<open>TabContainer\<close>\<close>

text \<open>
  A tab component is a function object; the code reads its \<^verbatim>\<open>name\<close>, \<^verbatim>\<open>displayName\<close> and
  \<^verbatim>\<open>minWidth\<close>. A tab is a React element: the code reads its \<^verbatim>\<open>type\<close> (the component;
  \<open>None\<close> when it is missing) and its \<^verbatim>\<open>key\<close> (\<open>None\<close> is \<^verbatim>\<open>null\<close>). The props of the
  element are the content of the panel and are left out.
\<close>

record component =
  comp_name :: string
  comp_displayName :: "string option"
  comp_minWidth :: "real option"

record tab_elem =
  el_type :: "component option"
  el_key :: "string option"

text \<open>
  The state of one \<^verbatim>\<open>TabContainer\<close>: its \<^verbatim>\<open>useState\<close> cells and its refs.
  \<open>timeoutRef\<close> is the ref of \<^verbatim>\<open>useDebounce\<close>: \<open>Some i\<close> is a timer that is pending and
  will deliver the indicators \<open>i\<close>; \<open>None\<close> is no pending timer. \<open>edgeHoldTimeout\<close> is the
  other timer ref of the component (a timer id). \<open>window_draggedTab\<close> is the global
  \<^verbatim>\<open>window.__draggedTab\<close>. An entry of a tab array may be \<^verbatim>\<open>null\<close> or \<^verbatim>\<open>undefined\<close>: \<open>None\<close>.
\<close>

record container_state =
  activeTab :: "tab_elem option"
  dropIndex :: "nat option"
  originalPositions :: "position list"
  timeoutRef :: "indicators option"
  edgeHoldTimeout :: "nat option"
  window_draggedTab :: "tab_elem option"

record props =
  tabs :: "tab_elem option list"
  groupIndex :: nat
  draggedTab :: "tab_elem option"
  draggedTabIndex :: "nat option"
  dropIndicators :: indicators

text \<open>
  The calls a handler makes to the callbacks it got from its parent, in order.
  \<^verbatim>\<open>onTabSplit\<close> gets the parsed \<^verbatim>\<open>tabInfo\<close>, the parsed source group and either the index
  of the target group or the flag "right edge"; \<^verbatim>\<open>onTabMove\<close> gets either the pair of the
  dragged tab and the target index with both group indices, or the reordered tab array
  with the group index.
\<close>

datatype split_target = TargetGroup nat | RightEdge bool

datatype call =
    OnDropIndicatorChange indicators
  | OnTabSplit json "int option" split_target
  | OnTabMoveAcross "tab_elem option" nat "int option" nat
  | OnTabMoveReorder "tab_elem option list" nat
  | OnDragStart tab_elem nat
  | OnDragEnd

subsection \<open>\<^verbatim>\<open>useDebounce\<close>\<close>

text \<open>
  The debounced callback replaces the pending timer by one that will deliver the new
  arguments. \<open>debounceFire\<close> is the timer running out: the callback given to
  \<^verbatim>\<open>useDebounce\<close> runs, which calls \<^verbatim>\<open>onDropIndicatorChange\<close> with the arguments kept. The hook
  returns the debounced callback only; nothing else reaches \<open>timeoutRef\<close>.
\<close>

definition debouncedCallback :: "container_state \<Rightarrow> indicators \<Rightarrow> container_state" where
  "debouncedCallback st i = st\<lparr>timeoutRef := Some i\<rparr>"

definition debounceFire :: "container_state \<Rightarrow> container_state \<times> call list" where
  "debounceFire st =
     (case timeoutRef st of
        None \<Rightarrow> (st, [])
      | Some i \<Rightarrow> (st\<lparr>timeoutRef := None\<rparr>, [OnDropIndicatorChange i]))"

subsection \<open>\<^verbatim>\<open>handleDragOver\<close>\<close>

text \<open>
  What \<^verbatim>\<open>handleDragOver\<close> reads from the event: the pointer, the bounding rectangles of the
  container and of its \<^verbatim>\<open>.tab-header\<close>, the position of the container among the children
  of its parent and the number of those children.
\<close>

record drag_over_event =
  clientX :: real
  clientY :: real
  containerRect :: dom_rect
  headerRect :: dom_rect
  currentGroupIndex :: nat
  allGroupsLength :: nat

definition newIndicators ::
  "bool \<Rightarrow> bool \<Rightarrow> bool \<Rightarrow> real \<Rightarrow> real \<Rightarrow> nat \<Rightarrow> indicators" where
  "newIndicators isOverHeader isFirstGroup isLastGroup distanceFromLeft distanceFromRight gi =
     \<lparr>leftGroup =
        (if \<not> isOverHeader \<and> isFirstGroup \<and> distanceFromLeft < edgeThreshold
         then Some gi else None),
      rightGroup =
        (if \<not> isOverHeader \<and> isLastGroup \<and> distanceFromRight < edgeThreshold
         then Some gi else None),
      betweenGroups =
        (if \<not> isOverHeader \<and>
            (\<not> isFirstGroup \<and> distanceFromLeft < edgeThreshold \<or>
             \<not> isLastGroup \<and> distanceFromRight < edgeThreshold)
         then Some gi else None)\<rparr>"

definition isOverHeaderOf :: "drag_over_event \<Rightarrow> bool" where
  "isOverHeaderOf e =
     (clientY e \<ge> rect_top (headerRect e) \<and> clientY e \<le> rect_bottom (headerRect e))"

definition insideVertically :: "drag_over_event \<Rightarrow> bool" where
  "insideVertically e =
     (clientY e \<ge> rect_top (containerRect e) \<and> clientY e \<le> rect_bottom (containerRect e))"

definition indicatorsOf :: "nat \<Rightarrow> drag_over_event \<Rightarrow> indicators" where
  "indicatorsOf gi e =
     (let distanceFromLeft = clientX e - rect_left (containerRect e);
          distanceFromRight = rect_right (containerRect e) - clientX e;
          isFirstGroup = (currentGroupIndex e = 0);
          isLastGroup = (int (currentGroupIndex e) = int (allGroupsLength e) - 1)
      in newIndicators (isOverHeaderOf e) isFirstGroup isLastGroup
           distanceFromLeft distanceFromRight gi)"

text \<open>
  The \<^verbatim>\<open>for\<close> loop over \<^verbatim>\<open>originalPositions.current\<close>, from \<open>i\<close> on; \<open>prev\<close> is the center of
  entry \<open>i - 1\<close>. \<open>Some i\<close> is the \<^verbatim>\<open>break\<close> at \<open>i\<close>, \<open>None\<close> the end of the loop.
\<close>

fun scanCenters :: "real \<Rightarrow> real \<Rightarrow> nat \<Rightarrow> real \<Rightarrow> position list \<Rightarrow> nat option" where
  "scanCenters relativeX headerLeft i prev [] = None"
| "scanCenters relativeX headerLeft i prev (p # ps) =
     (let prevCenter = prev - headerLeft;
          currentCenter = pos_center p - headerLeft
      in if relativeX \<ge> prevCenter \<and> relativeX < currentCenter then Some i
         else scanCenters relativeX headerLeft (Suc i) (pos_center p) ps)"

text \<open>The drop index before the split indicators are looked at.\<close>

definition positionDropIndex :: "position list \<Rightarrow> nat \<Rightarrow> real \<Rightarrow> real \<Rightarrow> nat" where
  "positionDropIndex ops tabsLength mouseX headerLeft =
     (let relativeX = mouseX - headerLeft;
          found =
            (case ops of
               [] \<Rightarrow> tabsLength
             | p # ps \<Rightarrow>
                 if relativeX < pos_center p - headerLeft then 0
                 else (case scanCenters relativeX headerLeft 1 (pos_center p) ps of
                         Some i \<Rightarrow> i
                       | None \<Rightarrow> tabsLength))
      in min found tabsLength)"

definition splitArmed :: "indicators \<Rightarrow> bool" where
  "splitArmed i = (leftGroup i \<noteq> None \<or> rightGroup i \<noteq> None \<or> betweenGroups i \<noteq> None)"

definition newDropIndexOf :: "props \<Rightarrow> container_state \<Rightarrow> drag_over_event \<Rightarrow> nat" where
  "newDropIndexOf pr st e =
     (if \<not> isOverHeaderOf e \<and> splitArmed (indicatorsOf (groupIndex pr) e) then 0
      else positionDropIndex (originalPositions st) (length (tabs pr))
             (clientX e) (rect_left (headerRect e)))"

text \<open>
  \<^verbatim>\<open>handleDragOver\<close>. The indicators go to the debounced callback, which replaces the
  pending timer; the drop index is set at once. No callback of the parent runs here.
\<close>

definition handleDragOver ::
  "props \<Rightarrow> container_state \<Rightarrow> drag_over_event \<Rightarrow> container_state" where
  "handleDragOver pr st e =
     (if insideVertically e
      then (debouncedCallback st (indicatorsOf (groupIndex pr) e))
             \<lparr>dropIndex := Some (newDropIndexOf pr st e)\<rparr>
      else st)"

subsection \<open>\<^verbatim>\<open>handleDragStart\<close>\<close>

text \<open>
  The event of \<^verbatim>\<open>handleDragStart\<close>: the bounding rectangles of the children of the parent
  of the tab, and the store of its \<^verbatim>\<open>dataTransfer\<close>, from format to data.
\<close>

record drag_start_event =
  tabRects :: "dom_rect list"
  dataTransfer :: "string \<rightharpoonup> string"

definition positionOf :: "dom_rect \<Rightarrow> position" where
  "positionOf rect =
     \<lparr>pos_left = rect_left rect, pos_right = rect_right rect, pos_width = rect_width rect,
      pos_center = rect_left rect + rect_width rect / 2\<rparr>"

definition keyJson :: "string option \<Rightarrow> json" where
  "keyJson k = (case k of None \<Rightarrow> JNull | Some s \<Rightarrow> JStr s)"

text \<open>
  \<^verbatim>\<open>handleDragStart\<close> returns the new state, the calls to the parent and the store of the
  \<^verbatim>\<open>dataTransfer\<close> after the handler.
\<close>

definition handleDragStart ::
  "js_builtins \<Rightarrow> props \<Rightarrow> container_state \<Rightarrow> drag_start_event \<Rightarrow> tab_elem option \<Rightarrow> nat \<Rightarrow>
   container_state \<times> call list \<times> (string \<rightharpoonup> string)" where
  "handleDragStart env pr st e tab index =
     (case tab of
        None \<Rightarrow> (st, [], dataTransfer e)
      | Some t \<Rightarrow>
          (case el_type t of
             None \<Rightarrow> (st, [], dataTransfer e)
           | Some c \<Rightarrow>
               (st\<lparr>originalPositions := map positionOf (tabRects e)\<rparr>,
                [OnDragStart t index],
                (dataTransfer e)
                  (''text/plain'' \<mapsto> Number_toString env (real index),
                   ''groupIndex'' \<mapsto> Number_toString env (real (groupIndex pr)),
                   ''tabInfo'' \<mapsto>
                     JSON_stringify env
                       (JObj [(''type'', JStr (comp_name c)),
                              (''index'', JNum (real index)),
                              (''key'', keyJson (el_key t))])))))"

subsection \<open>\<^verbatim>\<open>handleDragLeave\<close> and \<^verbatim>\<open>handleDragEnd\<close>\<close>

record drag_leave_event =
  leave_clientX :: real
  leave_clientY :: real
  leave_containerRect :: dom_rect

definition isOutsideContainer :: "drag_leave_event \<Rightarrow> bool" where
  "isOutsideContainer e =
     (leave_clientX e < rect_left (leave_containerRect e) \<or>
      leave_clientX e > rect_right (leave_containerRect e) \<or>
      leave_clientY e < rect_top (leave_containerRect e) \<or>
      leave_clientY e > rect_bottom (leave_containerRect e))"

text \<open>\<^verbatim>\<open>if (edgeHoldTimeout.current) { clearTimeout(...); edgeHoldTimeout.current = null; }\<close>\<close>

definition clearEdgeHoldTimeout :: "container_state \<Rightarrow> container_state" where
  "clearEdgeHoldTimeout st =
     (case edgeHoldTimeout st of None \<Rightarrow> st | Some t \<Rightarrow> st\<lparr>edgeHoldTimeout := None\<rparr>)"

definition handleDragLeave :: "container_state \<Rightarrow> drag_leave_event \<Rightarrow> container_state \<times> call list" where
  "handleDragLeave st e =
     (if isOutsideContainer e
      then (clearEdgeHoldTimeout st, [OnDropIndicatorChange noIndicators])
      else (st, []))"

definition handleDragEnd :: "container_state \<Rightarrow> container_state \<times> call list" where
  "handleDragEnd st =
     ((clearEdgeHoldTimeout (st\<lparr>dropIndex := None\<rparr>))\<lparr>window_draggedTab := None\<rparr>, [OnDragEnd])"

subsection \<open>\<^verbatim>\<open>handleDrop\<close>\<close>

text \<open>\<^verbatim>\<open>getData\<close> returns the empty string for a format that holds no data.\<close>

definition getData :: "(string \<rightharpoonup> string) \<Rightarrow> string \<Rightarrow> string" where
  "getData dt fmt = (case dt fmt of None \<Rightarrow> [] | Some s \<Rightarrow> s)"

text \<open>
  The start position of \<^verbatim>\<open>Array.prototype.splice\<close> in an array of length \<open>len\<close>: \<^verbatim>\<open>NaN\<close>
  counts as 0, a negative start counts from the end, and the result stays within the
  array.
\<close>

definition spliceStart :: "int option \<Rightarrow> nat \<Rightarrow> nat" where
  "spliceStart start len =
     (case start of
        None \<Rightarrow> 0
      | Some k \<Rightarrow> if k < 0 then nat (max (int len + k) 0) else min (nat k) len)"

text \<open>
  The reordered array of \<^verbatim>\<open>handleDrop\<close>:
  \<^verbatim>\<open>const newTabs = [...tabs]; const [movedTab] = newTabs.splice(sourceIndex, 1);
  newTabs.splice(dropIndex, 0, movedTab);\<close>
  When the first \<^verbatim>\<open>splice\<close> removes nothing, \<^verbatim>\<open>movedTab\<close> is \<^verbatim>\<open>undefined\<close>.
\<close>

definition movedTabOf :: "'a option list \<Rightarrow> int option \<Rightarrow> 'a option" where
  "movedTabOf ts sourceIndex =
     (let start = spliceStart sourceIndex (length ts)
      in if start < length ts then ts ! start else None)"

definition reorderTabs :: "'a option list \<Rightarrow> int option \<Rightarrow> nat \<Rightarrow> 'a option list" where
  "reorderTabs ts sourceIndex dropIdx =
     (let start = spliceStart sourceIndex (length ts);
          movedTab = movedTabOf ts sourceIndex;
          newTabs = take start ts @ drop (Suc start) ts;
          pos = min dropIdx (length newTabs)
      in take pos newTabs @ [movedTab] @ drop pos newTabs)"

text \<open>\<^verbatim>\<open>tabs[sourceIndex]\<close>: \<^verbatim>\<open>undefined\<close> unless the index is one of the array.\<close>

definition tabAt :: "'a option list \<Rightarrow> int option \<Rightarrow> 'a option" where
  "tabAt ts i =
     (case i of
        None \<Rightarrow> None
      | Some k \<Rightarrow> if 0 \<le> k \<and> nat k < length ts then ts ! nat k else None)"

text \<open>
  \<^verbatim>\<open>handleDrop\<close>. The three reads of the \<^verbatim>\<open>dataTransfer\<close> come first; when \<^verbatim>\<open>JSON.parse\<close>
  throws, the handler ends there with the exception (\<open>Inl\<close>), before any callback runs
  and before any state is set. \<^verbatim>\<open>a !== b\<close> on numbers holds when either is \<^verbatim>\<open>NaN\<close>.
\<close>

definition handleDrop ::
  "js_builtins \<Rightarrow> props \<Rightarrow> container_state \<Rightarrow> (string \<rightharpoonup> string) \<Rightarrow>
   js_error + container_state \<times> call list" where
  "handleDrop env pr st dt =
     (let sourceIndex = parseInt env (getData dt ''text/plain'');
          sourceGroupIndex = parseInt env (getData dt ''groupIndex'')
      in case JSON_parse env (getData dt ''tabInfo'') of
           None \<Rightarrow> Inl SyntaxError
         | Some tabInfo \<Rightarrow>
             (let gi = groupIndex pr;
                  wasShowingLeftIndicator = (leftGroup (dropIndicators pr) = Some gi);
                  wasShowingRightIndicator = (rightGroup (dropIndicators pr) = Some gi);
                  wasShowingBetweenIndicator = (betweenGroups (dropIndicators pr) = Some gi);
                  cleared = OnDropIndicatorChange noIndicators
              in if wasShowingBetweenIndicator
                 then Inr (st\<lparr>dropIndex := None\<rparr>,
                           [cleared, OnTabSplit tabInfo sourceGroupIndex (TargetGroup gi)])
                 else if wasShowingLeftIndicator \<or> wasShowingRightIndicator
                 then Inr (st\<lparr>dropIndex := None\<rparr>,
                           [cleared,
                            OnTabSplit tabInfo sourceGroupIndex (RightEdge wasShowingRightIndicator)])
                 else if sourceGroupIndex \<noteq> Some (int gi)
                 then (let targetIndex =
                             (case dropIndex st of Some d \<Rightarrow> d | None \<Rightarrow> length (tabs pr))
                       in Inr (st\<lparr>dropIndex := None\<rparr>,
                               [cleared,
                                OnTabMoveAcross (draggedTab pr) targetIndex sourceGroupIndex gi]))
                 else (case dropIndex st of
                         None \<Rightarrow> Inr (st\<lparr>dropIndex := None\<rparr>, [cleared])
                       | Some d \<Rightarrow>
                           if sourceIndex \<noteq> Some (int d)
                           then (let newTabs = reorderTabs (tabs pr) sourceIndex d;
                                     movedTab = movedTabOf (tabs pr) sourceIndex;
                                     st1 = (if activeTab st = tabAt (tabs pr) sourceIndex
                                            then st\<lparr>activeTab := movedTab\<rparr> else st)
                                 in Inr (st1\<lparr>dropIndex := None\<rparr>,
                                         [cleared, OnTabMoveReorder newTabs gi]))
                           else Inr (st\<lparr>dropIndex := None\<rparr>, [cleared]))))"

subsection \<open>Loading and saving the layout (\<^verbatim>\<open>ShopGenerator\<close>)\<close>

definition STORAGE_KEY :: string where
  "STORAGE_KEY = ''tabGroupsState''"

text \<open>\<^verbatim>\<open>Object.values(TAB_TYPE_IDENTIFIERS)\<close>.\<close>

definition TAB_TYPE_IDENTIFIERS :: "string list" where
  "TAB_TYPE_IDENTIFIERS =
     [''Tab_Parameters'', ''Tab_InventoryTable'', ''Tab_ChooseShop'', ''Tab_ShopDetails'',
      ''Tab_AiAssistant'']"

text \<open>The five tab components that \<^verbatim>\<open>ShopGenerator\<close> imports from the tab modules.\<close>

record tab_modules =
  Tab_Parameters :: component
  Tab_InventoryTable :: component
  Tab_ChooseShop :: component
  Tab_ShopDetails :: component
  Tab_AiAssistant :: component

text \<open>\<^verbatim>\<open>TAB_TYPES\<close>, in the order of \<^verbatim>\<open>Object.keys\<close>.\<close>

definition TAB_TYPES :: "tab_modules \<Rightarrow> (string \<times> component) list" where
  "TAB_TYPES m =
     [(''Tab_Parameters'', Tab_Parameters m),
      (''Tab_InventoryTable'', Tab_InventoryTable m),
      (''Tab_ChooseShop'', Tab_ChooseShop m),
      (''Tab_ShopDetails'', Tab_ShopDetails m),
      (''Tab_AiAssistant'', Tab_AiAssistant m)]"

definition savedTab :: "string \<Rightarrow> string \<Rightarrow> json" where
  "savedTab t k = JObj [(''type'', JStr t), (''key'', JStr k)]"

definition DEFAULT_TAB_STATE :: json where
  "DEFAULT_TAB_STATE =
     JObj [(''groups'',
            JArr [JArr [savedTab ''Tab_Parameters'' ''Tab_Parameters-0'',
                        savedTab ''Tab_InventoryTable'' ''Tab_InventoryTable-0'',
                        savedTab ''Tab_ChooseShop'' ''Tab_ChooseShop-0'',
                        savedTab ''Tab_ShopDetails'' ''Tab_ShopDetails-0'',
                        savedTab ''Tab_AiAssistant'' ''Tab_AiAssistant-0'']]),
           (''widths'', JArr [JStr ''100%''])]"

text \<open>
  The layout that \<^verbatim>\<open>useState\<close> holds as \<^verbatim>\<open>tabState\<close>: the groups of tab elements and the
  widths, which are whatever values the saved array held.
\<close>

record tab_state =
  ts_groups :: "tab_elem list list"
  ts_widths :: "json list"

text \<open>
  \<^verbatim>\<open>createTabElement\<close>: \<^verbatim>\<open>null\<close> (\<open>None\<close>) for an empty or unknown type, else the element of
  the component with the key.
\<close>

definition createTabElement :: "tab_modules \<Rightarrow> string \<Rightarrow> string \<Rightarrow> tab_elem option" where
  "createTabElement m tabType key =
     (if tabType = [] then None
      else (case map_of (TAB_TYPES m) tabType of
              None \<Rightarrow> None
            | Some TabComponent \<Rightarrow> Some \<lparr>el_type = Some TabComponent, el_key = Some key\<rparr>))"

text \<open>
  The element for a saved tab \<^verbatim>\<open>{type, key}\<close>. The callers pass tabs whose \<^verbatim>\<open>type\<close> and
  \<^verbatim>\<open>key\<close> are strings: those of \<^verbatim>\<open>DEFAULT_TAB_STATE\<close>, and those of a parsed state that
  has passed the checks of the loading effect.
\<close>

definition tabOfSaved :: "tab_modules \<Rightarrow> json \<Rightarrow> tab_elem option" where
  "tabOfSaved m tab =
     (case (getProp tab ''type'', getProp tab ''key'') of
        (Some (JStr tabType), Some (JStr key)) \<Rightarrow>
          (case map_of (TAB_TYPES m) tabType of
             None \<Rightarrow> None
           | Some c \<Rightarrow> createTabElement m tabType key)
      | other \<Rightarrow> None)"

definition DEFAULT_TAB_CONFIG :: "tab_modules \<Rightarrow> tab_state" where
  "DEFAULT_TAB_CONFIG m =
     \<lparr>ts_groups =
        filter (\<lambda>group. length group > 0)
          (map (\<lambda>group. List.map_filter (tabOfSaved m) (elements (Some group)))
             (elements (getProp DEFAULT_TAB_STATE ''groups''))),
      ts_widths = elements (getProp DEFAULT_TAB_STATE ''widths'')\<rparr>"

definition createTabsFromConfig :: "js_builtins \<Rightarrow> tab_modules \<Rightarrow> json \<Rightarrow> tab_state" where
  "createTabsFromConfig env m config =
     (let processedGroups =
            filter (\<lambda>group. length group > 0)
              (map (\<lambda>group. if \<not> isArray (Some group) then []
                            else List.map_filter (tabOfSaved m) (elements (Some group)))
                 (elements (getProp config ''groups'')));
          n = length processedGroups;
          widths = elements (getProp config ''widths'')
      in if n = 0 then DEFAULT_TAB_CONFIG m
         else \<lparr>ts_groups = processedGroups,
               ts_widths =
                 (if length widths \<noteq> n
                  then map (\<lambda>i. if int i = int n - 1 then JStr ''100%''
                                else JStr (Number_toString env (100 / real n) @ ''%''))
                         [0..<n]
                  else widths)\<rparr>)"

definition isValidStructure :: "json \<Rightarrow> bool" where
  "isValidStructure parsed =
     list_all
       (\<lambda>group. isArray (Some group) \<and>
          list_all
            (\<lambda>tab. truthy tab \<and> typeofObject tab \<and> isString (getProp tab ''type'') \<and>
               isString (getProp tab ''key''))
            (elements (Some group)))
       (elements (getProp parsed ''groups''))"

text \<open>\<^verbatim>\<open>Object.values(TAB_TYPE_IDENTIFIERS).includes(v)\<close>\<close>

fun includesType :: "string list \<Rightarrow> json option \<Rightarrow> bool" where
  "includesType ids (Some (JStr t)) = (t \<in> set ids)"
| "includesType ids v = False"

definition hasValidTabs :: "json \<Rightarrow> bool" where
  "hasValidTabs parsed =
     list_all
       (\<lambda>group. list_all (\<lambda>tab. includesType TAB_TYPE_IDENTIFIERS (getProp tab ''type''))
          (elements (Some group)))
       (elements (getProp parsed ''groups''))"

text \<open>
  The effect that loads the saved layout; the result is the argument of \<^verbatim>\<open>setTabState\<close>.
  \<open>storage\<close> is \<^verbatim>\<open>localStorage\<close>; a \<^verbatim>\<open>SyntaxError\<close> of \<^verbatim>\<open>JSON.parse\<close> lands in the \<^verbatim>\<open>catch\<close>.
\<close>

definition loadTabState ::
  "js_builtins \<Rightarrow> tab_modules \<Rightarrow> (string \<rightharpoonup> string) \<Rightarrow> tab_state" where
  "loadTabState env m storage =
     (case storage STORAGE_KEY of
        None \<Rightarrow> DEFAULT_TAB_CONFIG m
      | Some savedState \<Rightarrow>
          if savedState = [] then DEFAULT_TAB_CONFIG m
          else (case JSON_parse env savedState of
                  None \<Rightarrow> DEFAULT_TAB_CONFIG m
                | Some parsed \<Rightarrow>
                    if \<not> truthy parsed \<or> \<not> isArray (getProp parsed ''groups'') \<or>
                       \<not> isArray (getProp parsed ''widths'')
                    then DEFAULT_TAB_CONFIG m
                    else if \<not> isValidStructure parsed then DEFAULT_TAB_CONFIG m
                    else if \<not> hasValidTabs parsed then DEFAULT_TAB_CONFIG m
                    else (let newState = createTabsFromConfig env m parsed
                          in if length (ts_groups newState) > 0 then newState
                             else DEFAULT_TAB_CONFIG m)))"





text \<open>
  The later \<^verbatim>\<open>ShopGenerator\<close> validates with \<^verbatim>\<open>isValidSavedState\<close> and loads with
  \<^verbatim>\<open>createInitialTabState\<close>. It imports \<^verbatim>\<open>TAB_TYPE_IDENTIFIERS\<close> and \<^verbatim>\<open>DEFAULT_TAB_STATE\<close> from
  a module of constants; they are the parameters \<open>ids\<close> and \<open>dflt\<close>. The argument of
  \<^verbatim>\<open>isValidSavedState\<close> is a string, an object or \<^verbatim>\<open>null\<close>; the result \<open>None\<close> is \<^verbatim>\<open>null\<close>.
\<close>

definition isValidSavedState :: "js_builtins \<Rightarrow> string list \<Rightarrow> json \<Rightarrow> json option" where
  "isValidSavedState env ids state =
     (if \<not> truthy state then None
      else (case (case state of JStr s \<Rightarrow> JSON_parse env s | other \<Rightarrow> Some state) of
              None \<Rightarrow> None
            | Some parsedState \<Rightarrow>
                if truthy parsedState \<and>
                   isArray (getProp parsedState ''groups'') \<and>
                   isArray (getProp parsedState ''widths'') \<and>
                   list_all
                     (\<lambda>group. isArray (Some group) \<and>
                        list_all
                          (\<lambda>tab. truthy tab \<and> typeofObject tab \<and>
                             isString (getProp tab ''type'') \<and> isString (getProp tab ''key'') \<and>
                             includesType ids (getProp tab ''type''))
                          (elements (Some group)))
                     (elements (getProp parsedState ''groups''))
                then Some parsedState else None))"

text \<open>
  \<^verbatim>\<open>createInitialTabState\<close> returns the layout and leaves \<^verbatim>\<open>localStorage\<close> as its first
  statement, \<^verbatim>\<open>localStorage.clear()\<close>, made it.
\<close>

definition createInitialTabState ::
  "js_builtins \<Rightarrow> string list \<Rightarrow> json \<Rightarrow> (string \<rightharpoonup> string) \<Rightarrow> json \<times> (string \<rightharpoonup> string)" where
  "createInitialTabState env ids dflt storage =
     (let cleared = (Map.empty :: string \<rightharpoonup> string);
          savedState = (case cleared STORAGE_KEY of None \<Rightarrow> JNull | Some s \<Rightarrow> JStr s);
          validState = isValidSavedState env ids savedState
      in (case validState of None \<Rightarrow> dflt | Some v \<Rightarrow> v, cleared))"

subsection \<open>The layout store\<close>

text \<open>
  Modelled from the spec: the layout that the hook \<^verbatim>\<open>useTabManagement\<close> holds and that its
  \<^verbatim>\<open>handleTabMove\<close> and \<^verbatim>\<open>handleTabSplit\<close> change; the hook is not among the sources. Its
  operations follow section 4.1 of the specification. A layout is the "ordered sequence of
  Groups", each the ordered list of its tabs; the widths take no part in which group holds
  which panel and are left out, since the specification leaves their redistribution open.
\<close>

type_synonym layout = "tab_elem list list"

text \<open>
  Modelled from the spec: the "invalid-operation condition" with which the missing
  \<^verbatim>\<open>useTabManagement\<close> rejects an operation.
\<close>

datatype layout_error = InvalidOperation

text \<open>
  Modelled from the spec: the \<^verbatim>\<open>side\<close> of \<^verbatim>\<open>splitGroup\<close> in the missing \<^verbatim>\<open>useTabManagement\<close>:
  "side in {left, right}", or a boundary between groups.
\<close>

datatype side = SideLeft | SideRight | SideBetween nat

text \<open>
  Modelled from the spec: the lookup of a panel by its key in a group, which the missing
  \<^verbatim>\<open>useTabManagement\<close> needs for "removes panel from source group".
\<close>

definition findPanel :: "string \<Rightarrow> tab_elem list \<Rightarrow> tab_elem option" where
  "findPanel panelKey panels = find (\<lambda>p. el_key p = Some panelKey) panels"

text \<open>
  Modelled from the spec: insertion into an ordered list at an index "clamped to [0, len]"
  (the missing \<^verbatim>\<open>useTabManagement\<close>).
\<close>

definition insertAt :: "nat \<Rightarrow> 'a \<Rightarrow> 'a list \<Rightarrow> 'a list" where
  "insertAt i x xs = take (min i (length xs)) xs @ [x] @ drop (min i (length xs)) xs"

text \<open>
  Modelled from the spec: "if source group becomes empty, it is deleted" (the missing
  \<^verbatim>\<open>useTabManagement\<close>).
\<close>

definition deleteIfEmpty :: "nat \<Rightarrow> layout \<Rightarrow> layout" where
  "deleteIfEmpty s groups =
     (if s < length groups \<and> groups ! s = [] then take s groups @ drop (Suc s) groups
      else groups)"

text \<open>
  Modelled from the spec: the list step of \<^verbatim>\<open>reorderWithinGroup\<close> in the missing
  \<^verbatim>\<open>useTabManagement\<close>: "removes panel at fromIndex, reinserts at toIndex within the same
  group's ordered list".
\<close>

definition moveItem :: "'a list \<Rightarrow> nat \<Rightarrow> nat \<Rightarrow> 'a list" where
  "moveItem xs fromIndex toIndex =
     insertAt toIndex (xs ! fromIndex) (take fromIndex xs @ drop (Suc fromIndex) xs)"

text \<open>
  Modelled from the spec: \<^verbatim>\<open>reorderWithinGroup(groupIndex, fromIndex, toIndex)\<close> of the missing
  \<^verbatim>\<open>useTabManagement\<close>; an index out of range is rejected. The target index may be the
  number of tabs, as the drop index of \<^verbatim>\<open>handleDragOver\<close> may be.
\<close>

definition reorderWithinGroup :: "nat \<Rightarrow> nat \<Rightarrow> nat \<Rightarrow> layout \<Rightarrow> layout_error + layout" where
  "reorderWithinGroup g fromIndex toIndex groups =
     (if g < length groups \<and> fromIndex < length (groups ! g) \<and> toIndex \<le> length (groups ! g)
      then Inr (groups[g := moveItem (groups ! g) fromIndex toIndex])
      else Inl InvalidOperation)"

text \<open>
  Modelled from the spec: \<^verbatim>\<open>moveAcrossGroups(panelKey, sourceGroupIndex, targetGroupIndex,
  targetIndex)\<close> of the missing \<^verbatim>\<open>useTabManagement\<close>: "removes panel from source group; if source
  group becomes empty, it is deleted; inserts panel into target group's ordered list at
  targetIndex (clamped to [0, len])". An unknown key or a group index out of range is
  rejected.
\<close>

definition moveAcrossGroups ::
  "string \<Rightarrow> nat \<Rightarrow> nat \<Rightarrow> nat \<Rightarrow> layout \<Rightarrow> layout_error + layout" where
  "moveAcrossGroups panelKey s t targetIndex groups =
     (if s < length groups \<and> t < length groups
      then (case findPanel panelKey (groups ! s) of
              None \<Rightarrow> Inl InvalidOperation
            | Some p \<Rightarrow>
                (let removed = groups[s := remove1 p (groups ! s)];
                     inserted = removed[t := insertAt targetIndex p (removed ! t)]
                 in Inr (deleteIfEmpty s inserted)))
      else Inl InvalidOperation)"

text \<open>
  Modelled from the spec: \<^verbatim>\<open>splitGroup(panelKey, sourceGroupIndex, side)\<close> of the missing
  \<^verbatim>\<open>useTabManagement\<close>: "removes the panel from its source group (deleting the source group
  if it becomes empty) and creates a brand-new single-panel group inserted at the leftmost
  or rightmost position of the Layout or immediately adjacent to an existing boundary".
  \<open>SideBetween b\<close> is the boundary before position \<open>b\<close> of the groups that remain.
\<close>

definition splitGroup :: "string \<Rightarrow> nat \<Rightarrow> side \<Rightarrow> layout \<Rightarrow> layout_error + layout" where
  "splitGroup panelKey s sd groups =
     (if s < length groups
      then (case findPanel panelKey (groups ! s) of
              None \<Rightarrow> Inl InvalidOperation
            | Some p \<Rightarrow>
                (let remaining = deleteIfEmpty s (groups[s := remove1 p (groups ! s)])
                 in case sd of
                      SideLeft \<Rightarrow> Inr ([p] # remaining)
                    | SideRight \<Rightarrow> Inr (remaining @ [[p]])
                    | SideBetween b \<Rightarrow>
                        if b \<le> length remaining then Inr (insertAt b [p] remaining)
                        else Inl InvalidOperation))
      else Inl InvalidOperation)"

text \<open>
  Modelled from the spec: the three mutations of the layout store of the missing
  \<^verbatim>\<open>useTabManagement\<close>, as values.
\<close>

datatype layout_op =
    ReorderWithinGroup nat nat nat
  | MoveAcrossGroups string nat nat nat
  | SplitGroup string nat side

text \<open>
  Modelled from the spec: the application of a mutation by the missing \<^verbatim>\<open>useTabManagement\<close>;
  operations "return the new Layout or fail with a validation error".
\<close>

fun applyOp :: "layout_op \<Rightarrow> layout \<Rightarrow> layout_error + layout" where
  "applyOp (ReorderWithinGroup g fromIndex toIndex) groups =
     reorderWithinGroup g fromIndex toIndex groups"
| "applyOp (MoveAcrossGroups panelKey s t targetIndex) groups =
     moveAcrossGroups panelKey s t targetIndex groups"
| "applyOp (SplitGroup panelKey s sd) groups = splitGroup panelKey s sd groups"

text \<open>
  Modelled from the spec: the store of the missing \<^verbatim>\<open>useTabManagement\<close> after an operation;
  a validation error "leaves the store unchanged".
\<close>

definition runOp :: "layout \<Rightarrow> layout_op \<Rightarrow> layout" where
  "runOp groups op = (case applyOp op groups of Inl e \<Rightarrow> groups | Inr groups' \<Rightarrow> groups')"

text \<open>
  Modelled from the spec: the store of the missing \<^verbatim>\<open>useTabManagement\<close> after a sequence of
  operations, applied from left to right; its results are the layouts reachable "by any
  sequence of reorder, cross-group move, and split operations".
\<close>

definition runOps :: "layout_op list \<Rightarrow> layout \<Rightarrow> layout" where
  "runOps ops groups = foldl runOp groups ops"

text \<open>The keys of the panels of a layout, group after group.\<close>

definition panelKeys :: "layout \<Rightarrow> string option list" where
  "panelKeys groups = map el_key (concat groups)"

text \<open>A valid layout holds every panel key once.\<close>

definition validLayout :: "layout \<Rightarrow> bool" where
  "validLayout groups = distinct (panelKeys groups)"

text \<open>The number of groups that hold a panel with the key.\<close>

definition groupsHolding :: "string option \<Rightarrow> layout \<Rightarrow> nat" where
  "groupsHolding k groups = length (filter (\<lambda>group. k \<in> set (map el_key group)) groups)"

subsection \<open>Concrete inputs\<close>

text \<open>
  Inputs on which the handlers are run below. The modules of \<^verbatim>\<open>Tab_InventoryTable\<close>,
  \<^verbatim>\<open>Tab_ChooseShop\<close> and \<^verbatim>\<open>Tab_AiAssistant\<close> set \<^verbatim>\<open>displayName\<close> and \<^verbatim>\<open>minWidth\<close> as given here;
  those of \<^verbatim>\<open>Tab_Parameters\<close> and \<^verbatim>\<open>Tab_ShopDetails\<close> are not among the sources, and the
  instance gives them display names of their own.
\<close>

definition exampleModules :: tab_modules where
  "exampleModules =
     \<lparr>Tab_Parameters =
        \<lparr>comp_name = ''Tab_Parameters'', comp_displayName = Some ''Parameters'',
         comp_minWidth = None\<rparr>,
      Tab_InventoryTable =
        \<lparr>comp_name = ''Tab_InventoryTable'', comp_displayName = Some ''Inventory Table'',
         comp_minWidth = Some 400\<rparr>,
      Tab_ChooseShop =
        \<lparr>comp_name = ''Tab_ChooseShop'', comp_displayName = Some ''Choose Shop'',
         comp_minWidth = Some 220\<rparr>,
      Tab_ShopDetails =
        \<lparr>comp_name = ''Tab_ShopDetails'', comp_displayName = Some ''Shop Details'',
         comp_minWidth = None\<rparr>,
      Tab_AiAssistant =
        \<lparr>comp_name = ''Tab_AiAssistant'', comp_displayName = Some ''The Oracle'',
         comp_minWidth = Some 250\<rparr>\<rparr>"

definition tabA :: tab_elem where
  "tabA = \<lparr>el_type = Some (Tab_Parameters exampleModules), el_key = Some ''Tab_Parameters-0''\<rparr>"

definition tabB :: tab_elem where
  "tabB =
     \<lparr>el_type = Some (Tab_InventoryTable exampleModules), el_key = Some ''Tab_InventoryTable-0''\<rparr>"

definition tabC :: tab_elem where
  "tabC = \<lparr>el_type = Some (Tab_ChooseShop exampleModules), el_key = Some ''Tab_ChooseShop-0''\<rparr>"

text \<open>A container of three tabs, the group 0, with no indicator shown and \<open>tabA\<close> dragged.\<close>

definition exampleProps :: props where
  "exampleProps =
     \<lparr>tabs = [Some tabA, Some tabB, Some tabC], groupIndex = 0, draggedTab = Some tabA,
      draggedTabIndex = Some 0, dropIndicators = noIndicators\<rparr>"

text \<open>Tabs 60 wide from x = 0 on: the cached centers are 30, 90 and 150.\<close>

definition examplePositions :: "position list" where
  "examplePositions =
     [\<lparr>pos_left = 0, pos_right = 60, pos_width = 60, pos_center = 30\<rparr>,
      \<lparr>pos_left = 60, pos_right = 120, pos_width = 60, pos_center = 90\<rparr>,
      \<lparr>pos_left = 120, pos_right = 180, pos_width = 60, pos_center = 150\<rparr>]"

definition exampleState :: container_state where
  "exampleState =
     \<lparr>activeTab = Some tabA, dropIndex = None, originalPositions = examplePositions,
      timeoutRef = None, edgeHoldTimeout = None, window_draggedTab = None\<rparr>"

text \<open>
  A container from x = 0 to \<open>w\<close> and from y = 0 to 500, its header the top 30 pixels; the
  pointer at \<open>(x, y)\<close>; the container is child \<open>i\<close> of \<open>n\<close>.
\<close>

definition dragOverAt :: "real \<Rightarrow> real \<Rightarrow> real \<Rightarrow> nat \<Rightarrow> nat \<Rightarrow> drag_over_event" where
  "dragOverAt w x y i n =
     \<lparr>clientX = x, clientY = y,
      containerRect =
        \<lparr>rect_left = 0, rect_right = w, rect_top = 0, rect_bottom = 500, rect_width = w\<rparr>,
      headerRect =
        \<lparr>rect_left = 0, rect_right = w, rect_top = 0, rect_bottom = 30, rect_width = w\<rparr>,
      currentGroupIndex = i, allGroupsLength = n\<rparr>"

definition dragLeaveAt :: "real \<Rightarrow> real \<Rightarrow> real \<Rightarrow> drag_leave_event" where
  "dragLeaveAt w x y =
     \<lparr>leave_clientX = x, leave_clientY = y,
      leave_containerRect =
        \<lparr>rect_left = 0, rect_right = w, rect_top = 0, rect_bottom = 500, rect_width = w\<rparr>\<rparr>"

text \<open>The \<^verbatim>\<open>tabInfo\<close> that \<^verbatim>\<open>handleDragStart\<close> writes for \<open>tabA\<close> at index 0.\<close>

definition tabInfoA :: json where
  "tabInfoA =
     JObj [(''type'', JStr ''Tab_Parameters''), (''index'', JNum 0),
           (''key'', JStr ''Tab_Parameters-0'')]"

definition tabInfoText :: string where
  \<open>tabInfoText = ''{"type":"Tab_Parameters","index":0,"key":"Tab_Parameters-0"}''\<close>

text \<open>The drag data that \<^verbatim>\<open>handleDragStart\<close> writes for \<open>tabA\<close>, tab 0 of group 0.\<close>

definition payloadA :: "string \<rightharpoonup> string" where
  "payloadA = [''text/plain'' \<mapsto> ''0'', ''groupIndex'' \<mapsto> ''0'', ''tabInfo'' \<mapsto> tabInfoText]"

text \<open>The same without the entry \<^verbatim>\<open>groupIndex\<close>.\<close>

definition payloadNoGroup :: "string \<rightharpoonup> string" where
  "payloadNoGroup = [''text/plain'' \<mapsto> ''0'', ''tabInfo'' \<mapsto> tabInfoText]"

text \<open>
  A saved layout without the array \<^verbatim>\<open>widths\<close>, and the text of \<^verbatim>\<open>DEFAULT_TAB_STATE\<close> as
  \<^verbatim>\<open>JSON.stringify\<close> writes it.
\<close>

definition blobNoWidths :: string where
  \<open>blobNoWidths = ''{"groups":[[{"type":"Tab_Parameters","key":"Tab_Parameters-0"}]]}''\<close>


text \<open>
  A split of \<open>tabA\<close> to the right edge, a move of \<open>tabC\<close> to the front of group 1, and a move
  of a panel that does not exist.
\<close>

definition exampleOps :: "layout_op list" where
  "exampleOps =
     [SplitGroup ''Tab_Parameters-0'' 0 SideRight,
      MoveAcrossGroups ''Tab_ChooseShop-0'' 0 1 0,
      MoveAcrossGroups ''Tab_Unknown-0'' 0 1 0]"







subsection \<open>Notions of the specification\<close>

text \<open>
  The calls that a run of \<^verbatim>\<open>handleDrop\<close> made; a run that ends with the exception of
  \<^verbatim>\<open>JSON.parse\<close> made none. A call is a layout mutation when it is \<^verbatim>\<open>onTabMove\<close> or
  \<^verbatim>\<open>onTabSplit\<close>.
\<close>

definition callsOf :: "js_error + container_state \<times> call list \<Rightarrow> call list" where
  "callsOf r = (case r of Inl e \<Rightarrow> [] | Inr (st, cs) \<Rightarrow> cs)"


fun isMutationCall :: "call \<Rightarrow> bool" where
  "isMutationCall (OnTabMoveReorder ts g) = True"
| "isMutationCall (OnTabMoveAcross t i s g) = True"
| "isMutationCall (OnTabSplit info s target) = True"
| "isMutationCall c = False"


text \<open>How many of the three indicator fields are not \<^verbatim>\<open>null\<close>.\<close>

definition armedCount :: "indicators \<Rightarrow> nat" where
  "armedCount i =
     (if leftGroup i \<noteq> None then 1 else 0) + (if rightGroup i \<noteq> None then 1 else 0) +
     (if betweenGroups i \<noteq> None then 1 else 0)"

text \<open>
  The insertion index in the words of the specification: the first position whose cached
  center is at least the pointer's x, both taken relative to the left edge of the header;
  the number of cached centers when there is none.
\<close>

definition specInsertionIndex :: "position list \<Rightarrow> real \<Rightarrow> real \<Rightarrow> nat" where
  "specInsertionIndex ops mouseX headerLeft =
     length (takeWhile (\<lambda>p. \<not> pos_center p - headerLeft \<ge> mouseX - headerLeft) ops)"

text \<open>The same with a strict comparison: the first cached center right of the pointer.\<close>

definition firstCenterAfter :: "position list \<Rightarrow> real \<Rightarrow> real \<Rightarrow> nat" where
  "firstCenterAfter ops mouseX headerLeft =
     length (takeWhile (\<lambda>p. \<not> mouseX - headerLeft < pos_center p - headerLeft) ops)"

text \<open>
  A parsed blob passes structural validation, in the words of the specification: \<^verbatim>\<open>groups\<close>
  and \<^verbatim>\<open>widths\<close> are arrays, every group is an array, every tab has a string \<^verbatim>\<open>type\<close> and a
  string \<^verbatim>\<open>key\<close>, and every \<^verbatim>\<open>type\<close> is one of the fixed identifiers.
\<close>

definition wellFormedSaved :: "string list \<Rightarrow> json \<Rightarrow> bool" where
  "wellFormedSaved ids v =
     (isArray (getProp v ''groups'') \<and> isArray (getProp v ''widths'') \<and>
      list_all
        (\<lambda>tabGroup. isArray (Some tabGroup) \<and>
           list_all
             (\<lambda>tab. isString (getProp tab ''type'') \<and> isString (getProp tab ''key'') \<and>
                includesType ids (getProp tab ''type''))
             (elements (Some tabGroup)))
        (elements (getProp v ''groups'')))"





section \<open>Properties\<close>

subsection \<open>Evaluation of the runtime instance\<close>

lemma parse_tabInfoText: "parse_ascii tabInfoText = Some tabInfoA"
  unfolding tabInfoText_def tabInfoA_def by code_simp

lemma parse_empty: "parse_ascii [] = None"
  by code_simp

lemma parseInt_examples:
  "parseInt_ascii [] = None" "parseInt_ascii ''0'' = Some 0" "parseInt_ascii ''1'' = Some 1"
  by code_simp+

lemma getData_payloadA:
  "getData payloadA ''text/plain'' = ''0''" "getData payloadA ''groupIndex'' = ''0''"
  "getData payloadA ''tabInfo'' = tabInfoText"
  by (simp_all add: getData_def payloadA_def)

lemma getData_payloadNoGroup:
  "getData payloadNoGroup ''text/plain'' = ''0''" "getData payloadNoGroup ''groupIndex'' = []"
  "getData payloadNoGroup ''tabInfo'' = tabInfoText"
  by (simp_all add: getData_def payloadNoGroup_def)

lemmas dragOverAt_simps = dragOverAt_def insideVertically_def indicatorsOf_def
  isOverHeaderOf_def newIndicators_def edgeThreshold_def

subsection \<open>Drop indicators\<close>

lemma armedCount_newIndicators:
  "\<not> (dl < edgeThreshold \<and> dr < edgeThreshold) \<Longrightarrow>
   armedCount (newIndicators h f l dl dr gi) \<le> 1"
  by (auto simp: armedCount_def newIndicators_def)

lemma wide_container_not_both_edges:
  "2 * edgeThreshold \<le> right - left \<Longrightarrow>
   \<not> (x - left < edgeThreshold \<and> right - x < edgeThreshold)"
  by (auto simp: edgeThreshold_def)

text \<open>
  Claim C1, as the code has it. For a drag-over event with the pointer inside the vertical
  bounds of the container, the indicators handed to the debounced callback have at most
  one of \<open>leftGroup\<close>, \<open>rightGroup\<close>, \<open>betweenGroups\<close> set, provided the pointer is not within
  the edge threshold of the left and of the right edge at once. By the lemma above this
  holds at every pointer position once the container is 80 pixels wide or more.
\<close>

theorem indicators_at_most_one:
  assumes "insideVertically e"
    and "\<not> (clientX e - rect_left (containerRect e) < edgeThreshold \<and>
            rect_right (containerRect e) - clientX e < edgeThreshold)"
  shows "\<exists>i. timeoutRef (handleDragOver pr st e) = Some i \<and> armedCount i \<le> 1"
proof -
  have "armedCount (indicatorsOf (groupIndex pr) e) \<le> 1"
    unfolding indicatorsOf_def Let_def using assms(2) by (rule armedCount_newIndicators)
  with assms(1) show ?thesis by (simp add: handleDragOver_def debouncedCallback_def)
qed

text \<open>
  The first of two groups, 300 wide, the pointer 10 from its left edge and below the
  header: only \<open>leftGroup\<close> is set.
\<close>

theorem indicators_at_most_one_witness:
  "insideVertically (dragOverAt 300 10 100 0 2) \<and>
   timeoutRef (handleDragOver exampleProps exampleState (dragOverAt 300 10 100 0 2)) =
     Some \<lparr>leftGroup = Some 0, rightGroup = None, betweenGroups = None\<rparr> \<and>
   (\<exists>i. timeoutRef (handleDragOver exampleProps exampleState (dragOverAt 300 10 100 0 2)) =
          Some i \<and> armedCount i \<le> 1)"
proof -
  have a: "insideVertically (dragOverAt 300 10 100 0 2)" by (simp add: dragOverAt_simps)
  have b: "\<not> (clientX (dragOverAt 300 10 100 0 2) -
               rect_left (containerRect (dragOverAt 300 10 100 0 2)) < edgeThreshold \<and>
             rect_right (containerRect (dragOverAt 300 10 100 0 2)) -
               clientX (dragOverAt 300 10 100 0 2) < edgeThreshold)"
    by (simp add: dragOverAt_simps)
  have c: "timeoutRef (handleDragOver exampleProps exampleState (dragOverAt 300 10 100 0 2)) =
     Some \<lparr>leftGroup = Some 0, rightGroup = None, betweenGroups = None\<rparr>"
    by (simp add: handleDragOver_def debouncedCallback_def exampleProps_def dragOverAt_simps)
  from a c indicators_at_most_one [OF a b, of exampleProps exampleState] show ?thesis by blast
qed

text \<open>
  A single group (first and last at once) in a container 60 wide, the pointer in its
  middle and below the header: \<open>leftGroup\<close> and \<open>rightGroup\<close> are both set.
\<close>

theorem indicators_two_armed_counterexample:
  "insideVertically (dragOverAt 60 30 100 0 1) \<and>
   timeoutRef (handleDragOver exampleProps exampleState (dragOverAt 60 30 100 0 1)) =
     Some \<lparr>leftGroup = Some 0, rightGroup = Some 0, betweenGroups = None\<rparr> \<and>
   armedCount \<lparr>leftGroup = Some 0, rightGroup = Some 0, betweenGroups = None\<rparr> = 2"
  by (simp add: handleDragOver_def debouncedCallback_def exampleProps_def dragOverAt_simps
      armedCount_def)

subsection \<open>The drop index\<close>

lemma scanCenters_char:
  "\<not> relativeX < prev - headerLeft \<Longrightarrow>
   scanCenters relativeX headerLeft i prev ps =
     (let k = length (takeWhile (\<lambda>p. \<not> relativeX < pos_center p - headerLeft) ps)
      in if k < length ps then Some (i + k) else None)"
  by (induction ps arbitrary: i prev) (auto simp: Let_def)

lemma positionDropIndex_char:
  "positionDropIndex ops n mouseX headerLeft =
     (let k = firstCenterAfter ops mouseX headerLeft
      in if k < length ops then min k n else n)"
proof (cases ops)
  case Nil
  then show ?thesis by (simp add: positionDropIndex_def firstCenterAfter_def)
next
  case (Cons p ps)
  show ?thesis
  proof (cases "mouseX - headerLeft < pos_center p - headerLeft")
    case True
    with Cons show ?thesis by (simp add: positionDropIndex_def firstCenterAfter_def)
  next
    case False
    with Cons scanCenters_char [of "mouseX - headerLeft" "pos_center p" headerLeft 1 ps]
    show ?thesis
      by (simp add: positionDropIndex_def firstCenterAfter_def Let_def)
  qed
qed

text \<open>
  Claim C4, as the code has it. For a drag-over event with the pointer inside the vertical
  bounds of the container, the drop index is 0 when the event arms a split indicator;
  otherwise it is the first position whose cached center lies strictly right of the
  pointer (both relative to the left edge of the header), capped at the number of tabs,
  and the number of tabs when no cached center lies right of the pointer. The cached
  centers are those of \<open>originalPositions\<close>, which \<^verbatim>\<open>handleDragStart\<close> of this container set. So the index is
  0 when the pointer is left of the first cached center, and a pointer exactly on a cached
  center gets the position after it.
\<close>

theorem dropIndex_first_center_after:
  assumes "insideVertically e"
  shows "dropIndex (handleDragOver pr st e) =
     Some (if \<not> isOverHeaderOf e \<and> splitArmed (indicatorsOf (groupIndex pr) e) then 0
           else let k = firstCenterAfter (originalPositions st) (clientX e)
                          (rect_left (headerRect e))
                in if k < length (originalPositions st) then min k (length (tabs pr))
                   else length (tabs pr))"
  using assms
  by (simp add: handleDragOver_def newDropIndexOf_def positionDropIndex_char
      debouncedCallback_def)

text \<open>Cached centers 30, 90, 150 and the pointer at x = 100 over the header: index 2.\<close>

theorem dropIndex_first_center_after_witness:
  "insideVertically (dragOverAt 300 100 10 0 1) \<and>
   dropIndex (handleDragOver exampleProps exampleState (dragOverAt 300 100 10 0 1)) = Some 2"
proof -
  have a: "insideVertically (dragOverAt 300 100 10 0 1)" by (simp add: dragOverAt_simps)
  have "firstCenterAfter examplePositions 100 0 = 2"
    by (simp add: firstCenterAfter_def examplePositions_def)
  with a dropIndex_first_center_after [OF a, of exampleProps exampleState] show ?thesis
    by (simp add: dragOverAt_simps exampleProps_def exampleState_def examplePositions_def
        splitArmed_def)
qed

text \<open>
  The pointer at x = 90, on the cached center of the second tab, over the header: the
  first position whose center is at least 90 is 1, and the handler sets the index 2.
\<close>

theorem dropIndex_at_center_counterexample:
  "insideVertically (dragOverAt 300 90 10 0 1) \<and>
   dropIndex (handleDragOver exampleProps exampleState (dragOverAt 300 90 10 0 1)) = Some 2 \<and>
   specInsertionIndex (originalPositions exampleState) (clientX (dragOverAt 300 90 10 0 1))
     (rect_left (headerRect (dragOverAt 300 90 10 0 1))) = 1"
  by (simp add: handleDragOver_def debouncedCallback_def newDropIndexOf_def
      positionDropIndex_def specInsertionIndex_def exampleProps_def exampleState_def
      examplePositions_def dragOverAt_simps splitArmed_def)

subsection \<open>The drop handler\<close>

lemma handleDrop_throws:
  "JSON_parse env (getData dt ''tabInfo'') = None \<Longrightarrow> handleDrop env pr st dt = Inl SyntaxError"
  by (simp add: handleDrop_def Let_def)


lemma handleDrop_edge:
  assumes "JSON_parse env (getData dt ''tabInfo'') = Some tabInfo"
    and "betweenGroups (dropIndicators pr) \<noteq> Some (groupIndex pr)"
    and "leftGroup (dropIndicators pr) = Some (groupIndex pr) \<or>
         rightGroup (dropIndicators pr) = Some (groupIndex pr)"
  shows "handleDrop env pr st dt =
     Inr (st\<lparr>dropIndex := None\<rparr>,
          [OnDropIndicatorChange noIndicators,
           OnTabSplit tabInfo (parseInt env (getData dt ''groupIndex''))
             (RightEdge (rightGroup (dropIndicators pr) = Some (groupIndex pr)))])"
  using assms by (simp add: handleDrop_def Let_def)

lemma handleDrop_across:
  assumes "JSON_parse env (getData dt ''tabInfo'') = Some tabInfo"
    and "betweenGroups (dropIndicators pr) \<noteq> Some (groupIndex pr)"
    and "leftGroup (dropIndicators pr) \<noteq> Some (groupIndex pr)"
    and "rightGroup (dropIndicators pr) \<noteq> Some (groupIndex pr)"
    and "parseInt env (getData dt ''groupIndex'') \<noteq> Some (int (groupIndex pr))"
  shows "handleDrop env pr st dt =
     Inr (st\<lparr>dropIndex := None\<rparr>,
          [OnDropIndicatorChange noIndicators,
           OnTabMoveAcross (draggedTab pr)
             (case dropIndex st of Some d \<Rightarrow> d | None \<Rightarrow> length (tabs pr))
             (parseInt env (getData dt ''groupIndex'')) (groupIndex pr)])"
  using assms by (simp add: handleDrop_def Let_def)

lemma handleDrop_reorder:
  assumes "JSON_parse env (getData dt ''tabInfo'') = Some tabInfo"
    and "betweenGroups (dropIndicators pr) \<noteq> Some (groupIndex pr)"
    and "leftGroup (dropIndicators pr) \<noteq> Some (groupIndex pr)"
    and "rightGroup (dropIndicators pr) \<noteq> Some (groupIndex pr)"
    and "parseInt env (getData dt ''groupIndex'') = Some (int (groupIndex pr))"
    and "dropIndex st = Some d"
    and "parseInt env (getData dt ''text/plain'') \<noteq> Some (int d)"
  shows "callsOf (handleDrop env pr st dt) =
          [OnDropIndicatorChange noIndicators,
           OnTabMoveReorder (reorderTabs (tabs pr) (parseInt env (getData dt ''text/plain'')) d)
             (groupIndex pr)]"
  using assms by (simp add: handleDrop_def Let_def callsOf_def)

lemma handleDrop_noop:
  assumes "JSON_parse env (getData dt ''tabInfo'') = Some tabInfo"
    and "betweenGroups (dropIndicators pr) \<noteq> Some (groupIndex pr)"
    and "leftGroup (dropIndicators pr) \<noteq> Some (groupIndex pr)"
    and "rightGroup (dropIndicators pr) \<noteq> Some (groupIndex pr)"
    and "parseInt env (getData dt ''groupIndex'') = Some (int (groupIndex pr))"
    and "dropIndex st = None \<or>
         map_option int (dropIndex st) = parseInt env (getData dt ''text/plain'')"
  shows "handleDrop env pr st dt =
           Inr (st\<lparr>dropIndex := None\<rparr>, [OnDropIndicatorChange noIndicators])"
  using assms by (auto simp add: handleDrop_def Let_def split: option.splits)

lemma handleDrop_one_mutation:
  "length (filter isMutationCall (callsOf (handleDrop env pr st dt))) \<le> 1"
  by (simp add: handleDrop_def Let_def callsOf_def split: option.splits)



lemma handleDragEnd_clears:
  "dropIndex (fst (handleDragEnd st)) = None \<and>
   window_draggedTab (fst (handleDragEnd st)) = None \<and>
   edgeHoldTimeout (fst (handleDragEnd st)) = None \<and> snd (handleDragEnd st) = [OnDragEnd]"
  by (simp add: handleDragEnd_def clearEdgeHoldTimeout_def split: option.splits)

text \<open>
  Claim C9, as the code has it. When the \<^verbatim>\<open>tabInfo\<close> entry of the drag data is missing or
  is not JSON, so that \<^verbatim>\<open>JSON.parse\<close> throws, \<^verbatim>\<open>handleDrop\<close> ends with that exception before
  it calls the parent: no reorder, no move, no split. \<^verbatim>\<open>handleDragEnd\<close> resets the drop
  index, deletes \<^verbatim>\<open>window.__draggedTab\<close> and calls \<^verbatim>\<open>onDragEnd\<close>, in every state.
\<close>

theorem drop_unparsable_tabInfo_aborts:
  assumes "JSON_parse env (getData dt ''tabInfo'') = None"
  shows "handleDrop env pr st dt = Inl SyntaxError \<and>
         callsOf (handleDrop env pr st dt) = [] \<and>
         dropIndex (fst (handleDragEnd st)) = None \<and>
         window_draggedTab (fst (handleDragEnd st)) = None \<and>
         snd (handleDragEnd st) = [OnDragEnd]"
  using handleDrop_throws [OF assms] handleDragEnd_clears [of st]
  by (simp add: callsOf_def)

text \<open>Drag data without any entry: \<^verbatim>\<open>getData\<close> gives the empty string, which is not JSON.\<close>

theorem drop_unparsable_tabInfo_aborts_witness:
  "JSON_parse ascii_builtins (getData Map.empty ''tabInfo'') = None \<and>
   handleDrop ascii_builtins exampleProps (exampleState\<lparr>dropIndex := Some 2\<rparr>) Map.empty =
     Inl SyntaxError \<and>
   snd (handleDragEnd (exampleState\<lparr>dropIndex := Some 2\<rparr>)) = [OnDragEnd]"
proof -
  have a: "JSON_parse ascii_builtins (getData Map.empty ''tabInfo'') = None"
    by (simp add: ascii_builtins_def getData_def parse_empty)
  from drop_unparsable_tabInfo_aborts
         [OF a, of exampleProps "exampleState\<lparr>dropIndex := Some 2\<rparr>"] a
  show ?thesis by simp
qed

text \<open>
  Drag data whose \<^verbatim>\<open>groupIndex\<close> entry is missing and whose \<^verbatim>\<open>tabInfo\<close> is intact: the source
  group parses to \<^verbatim>\<open>NaN\<close>, which differs from every group index, and the handler calls
  \<^verbatim>\<open>onTabMove\<close> for a move across groups.
\<close>

theorem drop_missing_groupIndex_counterexample:
  "getData payloadNoGroup ''groupIndex'' = [] \<and>
   callsOf (handleDrop ascii_builtins exampleProps (exampleState\<lparr>dropIndex := Some 2\<rparr>)
       payloadNoGroup) =
     [OnDropIndicatorChange noIndicators, OnTabMoveAcross (Some tabA) 2 None 0]"
proof -
  have p: "JSON_parse ascii_builtins (getData payloadNoGroup ''tabInfo'') = Some tabInfoA"
    by (simp add: ascii_builtins_def getData_payloadNoGroup parse_tabInfoText)
  have g: "parseInt ascii_builtins (getData payloadNoGroup ''groupIndex'') = None"
    by (simp add: ascii_builtins_def getData_payloadNoGroup parseInt_examples)
  have "handleDrop ascii_builtins exampleProps (exampleState\<lparr>dropIndex := Some 2\<rparr>)
          payloadNoGroup =
     Inr ((exampleState\<lparr>dropIndex := Some 2\<rparr>)\<lparr>dropIndex := None\<rparr>,
          [OnDropIndicatorChange noIndicators,
           OnTabMoveAcross (draggedTab exampleProps)
             (case dropIndex (exampleState\<lparr>dropIndex := Some 2\<rparr>) of Some d \<Rightarrow> d
              | None \<Rightarrow> length (tabs exampleProps))
             (parseInt ascii_builtins (getData payloadNoGroup ''groupIndex''))
             (groupIndex exampleProps)])"
    by (rule handleDrop_across [OF p]) (simp_all add: exampleProps_def noIndicators_def g)
  then have "callsOf (handleDrop ascii_builtins exampleProps
       (exampleState\<lparr>dropIndex := Some 2\<rparr>) payloadNoGroup) =
     [OnDropIndicatorChange noIndicators,
      OnTabMoveAcross (draggedTab exampleProps) 2 None (groupIndex exampleProps)]"
    unfolding g by (simp add: callsOf_def)
  then show ?thesis
    by (simp add: getData_payloadNoGroup exampleProps_def)
qed

subsection \<open>Starting a drag\<close>

text \<open>
  Claim C10. \<^verbatim>\<open>handleDragStart\<close> on a tab that is \<^verbatim>\<open>null\<close> or has no \<^verbatim>\<open>type\<close> leaves the state
  as it was (no positions are cached), calls nothing (\<^verbatim>\<open>onDragStart\<close> does not run) and
  writes nothing to the drag data. A drop of such a drag, whose data holds no \<^verbatim>\<open>tabInfo\<close>,
  ends in the exception of \<^verbatim>\<open>JSON.parse\<close> before any callback, on every container.
\<close>

theorem dragStart_without_type_is_noop:
  assumes "Option.bind tab el_type = None"
  shows "handleDragStart env pr st e tab index = (st, [], dataTransfer e) \<and>
         (JSON_parse env [] = None \<and> dataTransfer e ''tabInfo'' = None \<longrightarrow>
            handleDrop env pr' st' (snd (snd (handleDragStart env pr st e tab index))) =
              Inl SyntaxError)"
proof -
  have a: "handleDragStart env pr st e tab index = (st, [], dataTransfer e)"
    using assms by (cases tab) (simp_all add: handleDragStart_def)
  show ?thesis
    unfolding a by (auto simp: getData_def intro: handleDrop_throws)
qed

theorem dragStart_without_type_is_noop_witness:
  "Option.bind (Some (tabA\<lparr>el_type := None\<rparr>)) el_type = None \<and>
   handleDragStart ascii_builtins exampleProps exampleState
       \<lparr>tabRects = [], dataTransfer = Map.empty\<rparr> (Some (tabA\<lparr>el_type := None\<rparr>)) 0 =
     (exampleState, [], Map.empty) \<and>
   handleDrop ascii_builtins exampleProps exampleState Map.empty = Inl SyntaxError"
proof -
  have a: "Option.bind (Some (tabA\<lparr>el_type := None\<rparr>)) el_type = None" by simp
  have b: "JSON_parse ascii_builtins [] = None" by (simp add: ascii_builtins_def parse_empty)
  note n = dragStart_without_type_is_noop [OF a, of ascii_builtins exampleProps exampleState
      "\<lparr>tabRects = [], dataTransfer = Map.empty\<rparr>" 0 exampleProps exampleState]
  have d: "dataTransfer \<lparr>tabRects = [], dataTransfer = Map.empty\<rparr> ''tabInfo'' = None"
    by simp
  note c = n [THEN conjunct1]
  from n [THEN conjunct2, rule_format, OF conjI, OF b d]
  have "handleDrop ascii_builtins exampleProps exampleState Map.empty = Inl SyntaxError"
    unfolding c by simp
  with a c show ?thesis by simp
qed

subsection \<open>The pending indicator update\<close>

lemma pending_survives:
  "timeoutRef (fst (handleDragLeave st e)) = timeoutRef st"
  "timeoutRef (fst (handleDragEnd st)) = timeoutRef st"
  by (simp_all add: handleDragLeave_def handleDragEnd_def clearEdgeHoldTimeout_def
      split: option.splits)

text \<open>
  Claim C3 fails on the code. \<^verbatim>\<open>handleDragLeave\<close> and \<^verbatim>\<open>handleDragEnd\<close> clear
  \<open>edgeHoldTimeout\<close>, a ref that no handler ever sets, and leave the timer of \<^verbatim>\<open>useDebounce\<close>
  pending. A drag-over 10 pixels from the left edge of the first group schedules
  \<open>leftGroup = 0\<close>; after the pointer has left the container, and also after the drag has
  ended, the timer delivers that value to \<^verbatim>\<open>onDropIndicatorChange\<close>.
\<close>

theorem stale_indicator_fires_after_leave_and_end:
  "isOutsideContainer (dragLeaveAt 300 (- 5) 100) \<and>
   snd (handleDragLeave (handleDragOver exampleProps exampleState (dragOverAt 300 10 100 0 2))
          (dragLeaveAt 300 (- 5) 100)) = [OnDropIndicatorChange noIndicators] \<and>
   snd (debounceFire
          (fst (handleDragLeave
                  (handleDragOver exampleProps exampleState (dragOverAt 300 10 100 0 2))
                  (dragLeaveAt 300 (- 5) 100)))) =
     [OnDropIndicatorChange \<lparr>leftGroup = Some 0, rightGroup = None, betweenGroups = None\<rparr>] \<and>
   snd (handleDragEnd (handleDragOver exampleProps exampleState (dragOverAt 300 10 100 0 2))) =
     [OnDragEnd] \<and>
   snd (debounceFire
          (fst (handleDragEnd
                  (handleDragOver exampleProps exampleState (dragOverAt 300 10 100 0 2))))) =
     [OnDropIndicatorChange \<lparr>leftGroup = Some 0, rightGroup = None, betweenGroups = None\<rparr>]"
proof -
  let ?st = "handleDragOver exampleProps exampleState (dragOverAt 300 10 100 0 2)"
  have t: "timeoutRef ?st = Some \<lparr>leftGroup = Some 0, rightGroup = None, betweenGroups = None\<rparr>"
    by (simp add: handleDragOver_def debouncedCallback_def exampleProps_def dragOverAt_simps)
  have o: "isOutsideContainer (dragLeaveAt 300 (- 5) 100)"
    by (simp add: isOutsideContainer_def dragLeaveAt_def)
  have l: "snd (handleDragLeave ?st (dragLeaveAt 300 (- 5) 100)) =
             [OnDropIndicatorChange noIndicators]"
    using o by (simp add: handleDragLeave_def)
  have e: "snd (handleDragEnd ?st) = [OnDragEnd]"
    by (simp add: handleDragEnd_def)
  have f: "\<And>s. timeoutRef s = timeoutRef ?st \<Longrightarrow> snd (debounceFire s) =
     [OnDropIndicatorChange \<lparr>leftGroup = Some 0, rightGroup = None, betweenGroups = None\<rparr>]"
    by (simp add: debounceFire_def t)
  from o l e f [OF pending_survives(1)] f [OF pending_survives(2)] show ?thesis by blast
qed

subsection \<open>Reordering within a group\<close>

lemma reorderTabs_valid:
  assumes "i < length ts"
  shows "reorderTabs ts (Some (int i)) j =
           insertAt j (ts ! i) (take i ts @ drop (Suc i) ts)"
proof -
  have "spliceStart (Some (int i)) (length ts) = i"
    using assms by (simp add: spliceStart_def)
  with assms show ?thesis
    by (simp add: reorderTabs_def movedTabOf_def insertAt_def Let_def)
qed

lemma insertAt_remove:
  assumes "j \<le> length xs"
  shows "take j (insertAt j x xs) @ drop (Suc j) (insertAt j x xs) = xs"
    and "insertAt j x xs ! j = x" and "length (insertAt j x xs) = Suc (length xs)"
  using assms by (simp_all add: insertAt_def min_def nth_append)

lemma reorderTabs_example: "reorderTabs [a, b, c] (Some 0) 2 = [b, c, a]"
  by (simp add: reorderTabs_def movedTabOf_def spliceStart_def)

text \<open>
  Claim C8. For indices \<open>i\<close> and \<open>j\<close> of the tab array, the reorder of \<^verbatim>\<open>handleDrop\<close> from \<open>i\<close>
  to \<open>j\<close> followed by the reorder from \<open>j\<close> to \<open>i\<close> gives the array back; and tab 0 of
  \<open>[a, b, c]\<close> dropped at index 2 gives \<open>[b, c, a]\<close>.
\<close>

theorem reorder_inverse:
  assumes "i < length ts" and "j < length ts"
  shows "reorderTabs (reorderTabs ts (Some (int i)) j) (Some (int j)) i = ts \<and>
         reorderTabs [a, b, c] (Some 0) 2 = [b, c, a]"
proof -
  let ?rest = "take i ts @ drop (Suc i) ts"
  have len: "length ?rest = length ts - 1" using assms by simp
  have j: "j \<le> length ?rest" using assms len by simp
  have r1: "reorderTabs ts (Some (int i)) j = insertAt j (ts ! i) ?rest"
    using assms(1) by (rule reorderTabs_valid)
  have "j < length (insertAt j (ts ! i) ?rest)"
    using insertAt_remove(3) [OF j] j by simp
  then have "reorderTabs (insertAt j (ts ! i) ?rest) (Some (int j)) i =
               insertAt i (insertAt j (ts ! i) ?rest ! j)
                 (take j (insertAt j (ts ! i) ?rest) @ drop (Suc j) (insertAt j (ts ! i) ?rest))"
    by (rule reorderTabs_valid)
  also have "\<dots> = insertAt i (ts ! i) ?rest"
    using insertAt_remove(1,2) [OF j] by simp
  also have "\<dots> = ts"
  proof -
    have m: "min i (length ?rest) = i" using assms(1) by simp
    have "take i ?rest = take i ts" and "drop i ?rest = drop (Suc i) ts"
      using assms(1) by simp_all
    then have "insertAt i (ts ! i) ?rest = take i ts @ [ts ! i] @ drop (Suc i) ts"
      unfolding insertAt_def m by simp
    also have "\<dots> = ts" using assms(1) by (simp add: id_take_nth_drop [symmetric])
    finally show ?thesis .
  qed
  finally show ?thesis using r1 reorderTabs_example by simp
qed

text \<open>
  \<open>tabA\<close> dragged from index 0 to index 2 of the group \<open>[tabA, tabB, tabC]\<close>: the drop
  handler passes \<open>[tabB, tabC, tabA]\<close> to \<^verbatim>\<open>onTabMove\<close>, and the reverse reorder restores the
  group.
\<close>

theorem reorder_inverse_witness:
  "(0::nat) < length [Some tabA, Some tabB, Some tabC] \<and>
   (2::nat) < length [Some tabA, Some tabB, Some tabC] \<and>
   reorderTabs (reorderTabs [Some tabA, Some tabB, Some tabC] (Some (int 0)) 2) (Some (int 2)) 0 =
     [Some tabA, Some tabB, Some tabC] \<and>
   callsOf (handleDrop ascii_builtins exampleProps (exampleState\<lparr>dropIndex := Some 2\<rparr>) payloadA) =
     [OnDropIndicatorChange noIndicators,
      OnTabMoveReorder [Some tabB, Some tabC, Some tabA] 0]"
proof -
  have a: "(0::nat) < length [Some tabA, Some tabB, Some tabC]" by simp
  have b: "(2::nat) < length [Some tabA, Some tabB, Some tabC]" by simp
  have p: "JSON_parse ascii_builtins (getData payloadA ''tabInfo'') = Some tabInfoA"
    by (simp add: ascii_builtins_def getData_payloadA parse_tabInfoText)
  have si: "parseInt ascii_builtins (getData payloadA ''text/plain'') = Some 0"
    and sg: "parseInt ascii_builtins (getData payloadA ''groupIndex'') = Some 0"
    by (simp_all add: ascii_builtins_def getData_payloadA parseInt_examples)
  have "callsOf (handleDrop ascii_builtins exampleProps (exampleState\<lparr>dropIndex := Some 2\<rparr>)
          payloadA) =
     [OnDropIndicatorChange noIndicators,
      OnTabMoveReorder
        (reorderTabs (tabs exampleProps)
           (parseInt ascii_builtins (getData payloadA ''text/plain'')) 2)
        (groupIndex exampleProps)]"
    by (rule handleDrop_reorder [OF p])
       (simp_all add: exampleProps_def noIndicators_def si sg)
  then have "callsOf (handleDrop ascii_builtins exampleProps
          (exampleState\<lparr>dropIndex := Some 2\<rparr>) payloadA) =
     [OnDropIndicatorChange noIndicators,
      OnTabMoveReorder [Some tabB, Some tabC, Some tabA] 0]"
    unfolding si by (simp add: exampleProps_def reorderTabs_example)
  with a b
    reorder_inverse [OF a b, where a = "Some tabA" and b = "Some tabB" and c = "Some tabC",
      THEN conjunct1]
  show ?thesis by blast
qed

subsection \<open>Loading and saving\<close>

lemma DEFAULT_TAB_CONFIG_eq:
  "DEFAULT_TAB_CONFIG m =
     \<lparr>ts_groups =
        [[\<lparr>el_type = Some (Tab_Parameters m), el_key = Some ''Tab_Parameters-0''\<rparr>,
          \<lparr>el_type = Some (Tab_InventoryTable m), el_key = Some ''Tab_InventoryTable-0''\<rparr>,
          \<lparr>el_type = Some (Tab_ChooseShop m), el_key = Some ''Tab_ChooseShop-0''\<rparr>,
          \<lparr>el_type = Some (Tab_ShopDetails m), el_key = Some ''Tab_ShopDetails-0''\<rparr>,
          \<lparr>el_type = Some (Tab_AiAssistant m), el_key = Some ''Tab_AiAssistant-0''\<rparr>]],
      ts_widths = [JStr ''100%'']\<rparr>"
  by (simp add: DEFAULT_TAB_CONFIG_def DEFAULT_TAB_STATE_def savedTab_def tabOfSaved_def
      createTabElement_def TAB_TYPES_def List.map_filter_def)

lemma checks_imp_wellFormed:
  assumes "isArray (getProp v ''groups'')" and "isArray (getProp v ''widths'')"
    and "isValidStructure v" and "hasValidTabs v"
  shows "wellFormedSaved TAB_TYPE_IDENTIFIERS v"
  using assms
  by (auto simp: wellFormedSaved_def isValidStructure_def hasValidTabs_def list_all_iff)

lemma loadTabState_invalid:
  assumes "storage STORAGE_KEY = Some blob"
    and "JSON_parse env blob = None \<or>
         (\<exists>v. JSON_parse env blob = Some v \<and> \<not> wellFormedSaved TAB_TYPE_IDENTIFIERS v)"
  shows "loadTabState env m storage = DEFAULT_TAB_CONFIG m"
proof (cases "JSON_parse env blob")
  case None
  with assms(1) show ?thesis by (simp add: loadTabState_def)
next
  case (Some v)
  with assms(2) have "\<not> wellFormedSaved TAB_TYPE_IDENTIFIERS v" by simp
  with checks_imp_wellFormed [of v]
  have "\<not> isArray (getProp v ''groups'') \<or> \<not> isArray (getProp v ''widths'') \<or>
        \<not> isValidStructure v \<or> \<not> hasValidTabs v" by blast
  with assms(1) Some show ?thesis by (auto simp: loadTabState_def)
qed

lemma isValidSavedState_invalid:
  assumes "JSON_parse env blob = None \<or>
         (\<exists>v. JSON_parse env blob = Some v \<and> \<not> wellFormedSaved ids v)"
  shows "isValidSavedState env ids (JStr blob) = None"
proof (cases "JSON_parse env blob")
  case None
  then show ?thesis by (simp add: isValidSavedState_def)
next
  case (Some v)
  with assms have "\<not> wellFormedSaved ids v" by simp
  with Some show ?thesis
    by (auto simp: isValidSavedState_def wellFormedSaved_def list_all_iff)
qed

lemma createInitialTabState_default:
  "createInitialTabState env ids dflt storage = (dflt, Map.empty)"
  by (simp add: createInitialTabState_def isValidSavedState_def)

text \<open>
  Claim C6. When the stored blob is not JSON (\<^verbatim>\<open>JSON.parse\<close> throws) or its value fails
  structural validation, the loading effect sets \<^verbatim>\<open>DEFAULT_TAB_CONFIG\<close>: one group with the
  five default panels and the widths \<^verbatim>\<open>["100%"]\<close>. The model of the effect is total, every
  exception of the source being a branch that ends in the default. \<^verbatim>\<open>isValidSavedState\<close> of
  the later \<^verbatim>\<open>ShopGenerator\<close> rejects the same blobs, and its \<^verbatim>\<open>createInitialTabState\<close>
  returns the default layout.
\<close>

theorem invalid_blob_loads_default:
  assumes "storage STORAGE_KEY = Some blob"
    and "JSON_parse env blob = None \<or>
         (\<exists>v. JSON_parse env blob = Some v \<and> \<not> wellFormedSaved TAB_TYPE_IDENTIFIERS v)"
  shows "loadTabState env m storage = DEFAULT_TAB_CONFIG m \<and>
         length (ts_groups (DEFAULT_TAB_CONFIG m)) = 1 \<and>
         map el_key (concat (ts_groups (DEFAULT_TAB_CONFIG m))) =
           [Some ''Tab_Parameters-0'', Some ''Tab_InventoryTable-0'', Some ''Tab_ChooseShop-0'',
            Some ''Tab_ShopDetails-0'', Some ''Tab_AiAssistant-0''] \<and>
         ts_widths (DEFAULT_TAB_CONFIG m) = [JStr ''100%''] \<and>
         isValidSavedState env TAB_TYPE_IDENTIFIERS (JStr blob) = None \<and>
         fst (createInitialTabState env TAB_TYPE_IDENTIFIERS dflt storage) = dflt"
  using loadTabState_invalid [of storage blob env m, OF assms] isValidSavedState_invalid [OF assms(2)]
  by (simp add: createInitialTabState_default DEFAULT_TAB_CONFIG_eq)

lemma parse_not_json: "parse_ascii ''{not json'' = None"
  by code_simp

lemma parse_blobNoWidths:
  "parse_ascii blobNoWidths =
     Some (JObj [(''groups'', JArr [JArr [savedTab ''Tab_Parameters'' ''Tab_Parameters-0'']])])"
  unfolding blobNoWidths_def savedTab_def by code_simp

text \<open>The blob \<^verbatim>\<open>{not json\<close>, and a blob that lacks \<^verbatim>\<open>widths\<close>.\<close>

theorem invalid_blob_loads_default_witness:
  "loadTabState ascii_builtins exampleModules [STORAGE_KEY \<mapsto> ''{not json''] =
     DEFAULT_TAB_CONFIG exampleModules \<and>
   loadTabState ascii_builtins exampleModules [STORAGE_KEY \<mapsto> blobNoWidths] =
     DEFAULT_TAB_CONFIG exampleModules"
proof -
  have a: "[STORAGE_KEY \<mapsto> ''{not json''] STORAGE_KEY = Some ''{not json''" by simp
  have b: "JSON_parse ascii_builtins ''{not json'' = None \<or>
         (\<exists>v. JSON_parse ascii_builtins ''{not json'' = Some v \<and>
              \<not> wellFormedSaved TAB_TYPE_IDENTIFIERS v)"
    by (simp add: ascii_builtins_def parse_not_json)
  have c: "[STORAGE_KEY \<mapsto> blobNoWidths] STORAGE_KEY = Some blobNoWidths" by simp
  have d: "JSON_parse ascii_builtins blobNoWidths = None \<or>
         (\<exists>v. JSON_parse ascii_builtins blobNoWidths = Some v \<and>
              \<not> wellFormedSaved TAB_TYPE_IDENTIFIERS v)"
    by (simp add: ascii_builtins_def parse_blobNoWidths wellFormedSaved_def)
  from invalid_blob_loads_default
         [of "[STORAGE_KEY \<mapsto> ''{not json'']" "''{not json''" ascii_builtins exampleModules,
          OF a b]
       invalid_blob_loads_default
         [of "[STORAGE_KEY \<mapsto> blobNoWidths]" blobNoWidths ascii_builtins exampleModules,
          OF c d]
  show ?thesis by simp
qed
























subsection \<open>Membership of panels\<close>

text \<open>
  The reorder of \<^verbatim>\<open>handleDrop\<close> agrees with the reorder of the layout store where the source
  index is one of the group.
\<close>

lemma reorderTabs_moveItem:
  assumes "i < length g"
  shows "reorderTabs (map Some g) (Some (int i)) j = map Some (moveItem g i j)"
proof -
  have "i < length (map Some g)" using assms by simp
  from reorderTabs_valid [OF this, of j] assms show ?thesis
    by (simp add: moveItem_def insertAt_def take_map drop_map)
qed

lemma mset_concat_update:
  "i < length xs \<Longrightarrow>
   mset (concat (xs[i := y])) + mset (xs ! i) = mset (concat xs) + mset y"
proof (induction xs arbitrary: i)
  case Nil
  then show ?case by simp
next
  case (Cons x xs)
  show ?case
  proof (cases i)
    case 0
    then show ?thesis by simp
  next
    case (Suc k)
    with Cons.prems have "k < length xs" by simp
    from Cons.IH [OF this] Suc show ?thesis by (simp add: ac_simps)
  qed
qed

lemma concat_deleteIfEmpty: "concat (deleteIfEmpty s groups) = concat groups"
proof (cases "s < length groups \<and> groups ! s = []")
  case True
  then have "groups = take s groups @ [] # drop (Suc s) groups"
    using id_take_nth_drop [of s groups] by simp
  then have "concat groups = concat (take s groups) @ concat (drop (Suc s) groups)"
    by (metis append_Nil concat.simps(2) concat_append)
  with True show ?thesis by (simp add: deleteIfEmpty_def)
next
  case False
  then show ?thesis by (auto simp: deleteIfEmpty_def)
qed

lemma mset_insertAt: "mset (insertAt i x xs) = add_mset x (mset xs)"
proof -
  have "mset (take (min i (length xs)) xs) + mset (drop (min i (length xs)) xs) = mset xs"
    by (metis append_take_drop_id mset_append)
  then show ?thesis by (simp add: insertAt_def)
qed

lemma mset_concat_insertAt:
  "mset (concat (insertAt i [p] groups)) = add_mset p (mset (concat groups))"
proof -
  have "concat (take (min i (length groups)) groups) @ concat (drop (min i (length groups)) groups) =
        concat groups"
    by (metis append_take_drop_id concat_append)
  then have "mset (concat (take (min i (length groups)) groups)) +
             mset (concat (drop (min i (length groups)) groups)) = mset (concat groups)"
    by (metis mset_append)
  then show ?thesis by (simp add: insertAt_def)
qed

lemma mset_moveItem:
  assumes "i < length xs"
  shows "mset (moveItem xs i j) = mset xs"
proof -
  have "mset (take i xs @ drop (Suc i) xs) + {#xs ! i#} = mset xs"
    using assms by (metis add_mset_add_single id_take_nth_drop mset.simps(2) mset_append
        union_mset_add_mset_right)
  then show ?thesis by (simp add: moveItem_def mset_insertAt)
qed

lemma findPanel_mem: "findPanel k g = Some p \<Longrightarrow> p \<in> set g"
  by (auto simp: findPanel_def find_Some_iff)

lemma mset_remove_panel: "p \<in> set g \<Longrightarrow> add_mset p (mset (remove1 p g)) = mset g"
  by simp

lemma reorder_keeps_panels:
  assumes "reorderWithinGroup g i j L = Inr L'"
  shows "mset (concat L') = mset (concat L)"
proof -
  from assms have g: "g < length L" and i: "i < length (L ! g)"
    and L': "L' = L[g := moveItem (L ! g) i j]"
    by (auto simp: reorderWithinGroup_def split: if_splits)
  from mset_concat_update [OF g, of "moveItem (L ! g) i j"] mset_moveItem [OF i, of j]
  show ?thesis unfolding L' by simp
qed

lemma removed_panel:
  assumes "s < length L" and "p \<in> set (L ! s)"
  shows "add_mset p (mset (concat (L[s := remove1 p (L ! s)]))) = mset (concat L)"
proof -
  from mset_concat_update [OF assms(1), of "remove1 p (L ! s)"]
  have "mset (concat (L[s := remove1 p (L ! s)])) + mset (L ! s) =
        mset (concat L) + mset (remove1 p (L ! s))" .
  then have "add_mset p (mset (concat (L[s := remove1 p (L ! s)]))) + mset (L ! s) =
        mset (concat L) + add_mset p (mset (remove1 p (L ! s)))"
    by simp
  also have "\<dots> = mset (concat L) + mset (L ! s)"
    using mset_remove_panel [OF assms(2)] by simp
  finally show ?thesis by simp
qed

lemma move_keeps_panels:
  assumes "moveAcrossGroups k s t i L = Inr L'"
  shows "mset (concat L') = mset (concat L)"
proof -
  from assms obtain p where s: "s < length L" and t: "t < length L"
    and p: "findPanel k (L ! s) = Some p"
    and L': "L' = deleteIfEmpty s
                    ((L[s := remove1 p (L ! s)])
                       [t := insertAt i p ((L[s := remove1 p (L ! s)]) ! t)])"
    by (auto simp: moveAcrossGroups_def Let_def split: if_splits option.splits)
  let ?removed = "L[s := remove1 p (L ! s)]"
  have t': "t < length ?removed" using t by simp
  from mset_concat_update [OF t', of "insertAt i p (?removed ! t)"]
  have "mset (concat (?removed[t := insertAt i p (?removed ! t)])) =
        add_mset p (mset (concat ?removed))"
    by (simp add: mset_insertAt)
  also have "\<dots> = mset (concat L)"
    using removed_panel [OF s findPanel_mem [OF p]] .
  finally show ?thesis unfolding L' by (simp add: concat_deleteIfEmpty)
qed

lemma split_keeps_panels:
  assumes "splitGroup k s sd L = Inr L'"
  shows "mset (concat L') = mset (concat L)"
proof -
  from assms obtain p where s: "s < length L"
    and p: "findPanel k (L ! s) = Some p"
    and cases: "L' = [p] # deleteIfEmpty s (L[s := remove1 p (L ! s)]) \<or>
                L' = deleteIfEmpty s (L[s := remove1 p (L ! s)]) @ [[p]] \<or>
                (\<exists>b. L' = insertAt b [p] (deleteIfEmpty s (L[s := remove1 p (L ! s)])))"
    by (auto simp: splitGroup_def Let_def split: if_splits option.splits side.splits)
  have "mset (concat L') = add_mset p (mset (concat (L[s := remove1 p (L ! s)])))"
    using cases by (auto simp: concat_deleteIfEmpty mset_concat_insertAt)
  also have "\<dots> = mset (concat L)"
    using removed_panel [OF s findPanel_mem [OF p]] .
  finally show ?thesis .
qed

lemma runOp_keeps_panels: "mset (concat (runOp L op)) = mset (concat L)"
proof (cases "applyOp op L")
  case (Inl e)
  then show ?thesis by (simp add: runOp_def)
next
  case (Inr L')
  then have "mset (concat L') = mset (concat L)"
    by (cases op) (simp_all add: reorder_keeps_panels move_keeps_panels split_keeps_panels)
  with Inr show ?thesis by (simp add: runOp_def)
qed

lemma runOps_keeps_panels: "mset (concat (runOps ops L)) = mset (concat L)"
  unfolding runOps_def by (induction ops arbitrary: L) (simp_all add: runOp_keeps_panels)

lemma one_group_holds:
  "distinct (concat xss) \<Longrightarrow> x \<in> set (concat xss) \<Longrightarrow>
   length (filter (\<lambda>xs. x \<in> set xs) xss) = 1"
proof (induction xss)
  case Nil
  then show ?case by simp
next
  case (Cons xs xss)
  show ?case
  proof (cases "x \<in> set xs")
    case True
    with Cons.prems(1) have "\<forall>ys \<in> set xss. x \<notin> set ys" by auto
    then have "filter (\<lambda>xs. x \<in> set xs) xss = []" by (simp add: filter_empty_conv)
    with True show ?thesis by simp
  next
    case False
    with Cons show ?thesis by simp
  qed
qed

text \<open>
  Claim C5. Let \<open>L\<close> be the layout after any sequence of reorders within a group, moves
  across groups and splits, run from a valid layout \<open>L0\<close>. The panel keys of \<open>L\<close> are those
  of \<open>L0\<close>, each once: a key of \<open>L0\<close> is held by exactly one group of \<open>L\<close> and occurs once,
  and no other key is held by any group.
\<close>

theorem membership_invariant:
  assumes "validLayout L0"
  shows "mset (panelKeys (runOps ops L0)) = mset (panelKeys L0) \<and>
         validLayout (runOps ops L0) \<and>
         (k \<in> set (panelKeys L0) \<longrightarrow>
            groupsHolding k (runOps ops L0) = 1 \<and> count_list (panelKeys (runOps ops L0)) k = 1) \<and>
         (k \<notin> set (panelKeys L0) \<longrightarrow> groupsHolding k (runOps ops L0) = 0)"
proof -
  let ?L = "runOps ops L0"
  have m: "mset (panelKeys ?L) = mset (panelKeys L0)"
    using runOps_keeps_panels [of ops L0] by (simp add: panelKeys_def)
  have d: "distinct (panelKeys ?L)"
    using m assms by (metis mset_eq_imp_distinct_iff validLayout_def)
  have s: "set (panelKeys ?L) = set (panelKeys L0)"
    using m by (rule mset_eq_setD)
  have c: "panelKeys ?L = concat (map (map el_key) ?L)"
    by (simp add: panelKeys_def map_concat)
  have g: "groupsHolding k ?L = length (filter (\<lambda>xs. k \<in> set xs) (map (map el_key) ?L))"
    by (simp add: groupsHolding_def filter_map comp_def)
  have in1: "k \<in> set (panelKeys L0) \<Longrightarrow> groupsHolding k ?L = 1"
  proof -
    assume "k \<in> set (panelKeys L0)"
    with s c have "k \<in> set (concat (map (map el_key) ?L))" by simp
    moreover from d c have "distinct (concat (map (map el_key) ?L))" by simp
    ultimately show ?thesis unfolding g by (rule one_group_holds [rotated])
  qed
  have in2: "k \<in> set (panelKeys L0) \<Longrightarrow> count_list (panelKeys ?L) k = 1"
  proof -
    assume "k \<in> set (panelKeys L0)"
    with s have "k \<in> set (panelKeys ?L)" by simp
    moreover from d
    have "count (mset (panelKeys ?L)) k = (if k \<in> set (panelKeys ?L) then 1 else 0)"
      by (simp add: distinct_count_atmost_1)
    ultimately show ?thesis by (simp add: count_mset)
  qed
  have out: "k \<notin> set (panelKeys L0) \<Longrightarrow> groupsHolding k ?L = 0"
  proof -
    assume "k \<notin> set (panelKeys L0)"
    with s c have "\<forall>xs \<in> set (map (map el_key) ?L). k \<notin> set xs" by auto
    then show ?thesis unfolding g by (simp add: filter_empty_conv)
  qed
  from m d in1 in2 out show ?thesis by (simp add: validLayout_def)
qed

lemmas tab_defs = tabA_def tabB_def tabC_def exampleModules_def

lemma split_example:
  "splitGroup ''Tab_Parameters-0'' 0 SideRight [[tabA, tabB, tabC]] = Inr [[tabB, tabC], [tabA]]"
  by (simp add: splitGroup_def findPanel_def deleteIfEmpty_def tab_defs)

lemma move_example:
  "moveAcrossGroups ''Tab_ChooseShop-0'' 0 (Suc 0) 0 [[tabB, tabC], [tabA]] =
     Inr [[tabB], [tabC, tabA]]"
  by (simp add: moveAcrossGroups_def findPanel_def deleteIfEmpty_def insertAt_def tab_defs)

text \<open>
  From the single group \<open>[tabA, tabB, tabC]\<close>: \<open>tabA\<close> split off to the right edge, then \<open>tabC\<close>
  moved to the front of the new group, then a move of a key that no panel has (rejected).
\<close>

lemma move_rejected:
  "moveAcrossGroups ''Tab_Unknown-0'' 0 (Suc 0) 0 [[tabB], [tabC, tabA]] = Inl InvalidOperation"
  by (simp add: moveAcrossGroups_def findPanel_def tab_defs)

lemma runOps_example: "runOps exampleOps [[tabA, tabB, tabC]] = [[tabB], [tabC, tabA]]"
  by (simp add: runOps_def exampleOps_def runOp_def split_example move_example move_rejected)

theorem membership_invariant_witness:
  "validLayout [[tabA, tabB, tabC]] \<and>
   runOps exampleOps [[tabA, tabB, tabC]] = [[tabB], [tabC, tabA]] \<and>
   Some ''Tab_Parameters-0'' \<in> set (panelKeys [[tabA, tabB, tabC]]) \<and>
   groupsHolding (Some ''Tab_Parameters-0'') [[tabB], [tabC, tabA]] = 1 \<and>
   count_list (panelKeys [[tabB], [tabC, tabA]]) (Some ''Tab_Parameters-0'') = 1"
proof -
  have v: "validLayout [[tabA, tabB, tabC]]"
    by (simp add: validLayout_def panelKeys_def tab_defs)
  have k: "Some ''Tab_Parameters-0'' \<in> set (panelKeys [[tabA, tabB, tabC]])"
    by (simp add: panelKeys_def tab_defs)
  from membership_invariant [OF v, of exampleOps "Some ''Tab_Parameters-0''"] k v runOps_example
  show ?thesis by simp
qed

end
